theory Spec2Isabelle
  imports Main
begin

section \<open>Python values\<close>

subsection \<open>Text\<close>

text \<open>
  A Python \<open>str\<close> is a sequence of Unicode code points; it is modelled as the list of
  their numbers, so that the emoji of the source are single characters as in Python.
  \<open>lit\<close> turns an ASCII literal into such a text.
\<close>

type_synonym str = "nat list"

definition lit :: "string \<Rightarrow> str" where
  "lit s = map of_char s"

fun decimal :: "nat \<Rightarrow> str" where
  "decimal n = (if n < 10 then [48 + n] else decimal (n div 10) @ [48 + n mod 10])"

declare decimal.simps [simp del]

definition str_of_int :: "int \<Rightarrow> str" where
  "str_of_int i = (if i < 0 then lit ''-'' @ decimal (nat (- i)) else decimal (nat i))"

definition is_digit :: "nat \<Rightarrow> bool" where
  "is_digit c \<longleftrightarrow> 48 \<le> c \<and> c \<le> 57"

definition nat_of_digits :: "str \<Rightarrow> nat" where
  "nat_of_digits ds = foldl (\<lambda>a c. 10 * a + (c - 48)) 0 ds"

subsection \<open>Floating point numbers\<close>

text \<open>
  A Python \<open>float\<close> is an IEEE 754 binary64 number. \<open>Finite s m e\<close> is the number
  \<open>(-1)\<^sup>s * m * 2\<^sup>e\<close>, kept in the one form with \<open>m < 2\<^sup>5\<^sup>3\<close> and
  \<open>-1074 \<le> e \<le> 971\<close> in which \<open>2\<^sup>5\<^sup>2 \<le> m\<close> unless \<open>e = -1074\<close> (zero and
  the subnormal numbers). Python code cannot tell one NaN from another.
\<close>

datatype pyfloat = Finite bool nat int | Infinity bool | NaN

datatype pyerr = ValueError | TypeError | OverflowError | AttributeError | HTTPException

fun bit_length :: "nat \<Rightarrow> nat" where
  "bit_length n = (if n = 0 then 0 else Suc (bit_length (n div 2)))"

declare bit_length.simps [simp del]

definition round_half_even :: "nat \<Rightarrow> nat \<Rightarrow> nat" where
  "round_half_even num den =
     (let q = num div den; r = num mod den
      in if den < 2 * r \<or> (2 * r = den \<and> odd q) then q + 1 else q)"

definition floor_log2 :: "nat \<Rightarrow> nat \<Rightarrow> int" where
  "floor_log2 p q =
     (let b = int (bit_length p) - int (bit_length q)
      in if (if 0 \<le> b then q * 2 ^ nat b \<le> p else q \<le> p * 2 ^ nat (- b)) then b else b - 1)"

text \<open>
  \<open>round_ratio s p q\<close> is the binary64 number nearest to \<open>(-1)\<^sup>s * p / q\<close> (ties to
  the even significand, infinity beyond the largest finite number): the rounding of every
  arithmetic operation and of every conversion from decimal text.
\<close>

definition round_ratio :: "bool \<Rightarrow> nat \<Rightarrow> nat \<Rightarrow> pyfloat" where
  "round_ratio s p q =
     (if p = 0 then Finite s 0 (- 1074)
      else
        let x = max (floor_log2 p q - 52) (- 1074);
            m = (if 0 \<le> x then round_half_even p (q * 2 ^ nat x)
                 else round_half_even (p * 2 ^ nat (- x)) q)
        in if m = 2 ^ 53 then (if 971 < x + 1 then Infinity s else Finite s (2 ^ 52) (x + 1))
           else if 971 < x then Infinity s
           else Finite s m x)"

definition round_scaled :: "bool \<Rightarrow> nat \<Rightarrow> int \<Rightarrow> pyfloat" where
  "round_scaled s n e = (if 0 \<le> e then round_ratio s (n * 2 ^ nat e) 1 else round_ratio s n (2 ^ nat (- e)))"

definition float_of_int :: "int \<Rightarrow> pyerr + pyfloat" where
  "float_of_int i =
     (case round_ratio (i < 0) (nat \<bar>i\<bar>) 1 of
        Infinity s \<Rightarrow> Inl OverflowError
      | f \<Rightarrow> Inr f)"

text \<open>\<open>x - y\<close> on floats: the exact difference, rounded once.\<close>

fun float_sub :: "pyfloat \<Rightarrow> pyfloat \<Rightarrow> pyfloat" where
  "float_sub NaN y = NaN"
| "float_sub x NaN = NaN"
| "float_sub (Infinity s) (Infinity t) = (if s = t then NaN else Infinity s)"
| "float_sub (Infinity s) (Finite t n f) = Infinity s"
| "float_sub (Finite s m e) (Infinity t) = Infinity (\<not> t)"
| "float_sub (Finite s m e) (Finite t n f) =
     (let g = min e f;
          d = (if s then - 1 else 1) * int (m * 2 ^ nat (e - g))
              - (if t then - 1 else 1) * int (n * 2 ^ nat (f - g))
      in if d = 0 then Finite (s \<and> \<not> t) 0 (- 1074)
         else round_scaled (d < 0) (nat \<bar>d\<bar>) g)"

fun float_abs :: "pyfloat \<Rightarrow> pyfloat" where
  "float_abs (Finite s m e) = Finite False m e"
| "float_abs (Infinity s) = Infinity False"
| "float_abs NaN = NaN"

text \<open>
  The value of a finite float, counted in units of \<open>2\<^sup>-\<^sup>1\<^sup>0\<^sup>7\<^sup>4\<close>, the smallest positive
  float: every finite float is a whole number of them.
\<close>

definition float_units :: "pyfloat \<Rightarrow> int option" where
  "float_units x =
     (case x of
        Finite s m e \<Rightarrow> Some ((if s then - 1 else 1) * int m * 2 ^ nat (e + 1074))
      | Infinity s \<Rightarrow> None
      | NaN \<Rightarrow> None)"

text \<open>The comparisons of a float with the int \<open>0\<close>: \<open>x > 0\<close>, \<open>x < 0\<close>, \<open>x == 0\<close>, \<open>x <= 0\<close>.\<close>

fun gt_zero :: "pyfloat \<Rightarrow> bool" where
  "gt_zero (Finite s m e) \<longleftrightarrow> \<not> s \<and> 0 < m"
| "gt_zero (Infinity s) \<longleftrightarrow> \<not> s"
| "gt_zero NaN \<longleftrightarrow> False"

fun lt_zero :: "pyfloat \<Rightarrow> bool" where
  "lt_zero (Finite s m e) \<longleftrightarrow> s \<and> 0 < m"
| "lt_zero (Infinity s) \<longleftrightarrow> s"
| "lt_zero NaN \<longleftrightarrow> False"

fun eq_zero :: "pyfloat \<Rightarrow> bool" where
  "eq_zero (Finite s m e) \<longleftrightarrow> m = 0"
| "eq_zero (Infinity s) \<longleftrightarrow> False"
| "eq_zero NaN \<longleftrightarrow> False"

definition le_zero :: "pyfloat \<Rightarrow> bool" where
  "le_zero x \<longleftrightarrow> lt_zero x \<or> eq_zero x"

subsection \<open>Format specifications\<close>

fun group3 :: "str \<Rightarrow> str" where
  "group3 ds = (if length ds \<le> 3 then ds
                else group3 (take (length ds - 3) ds) @ lit '','' @ drop (length ds - 3) ds)"

declare group3.simps [simp del]

definition zero_pad :: "nat \<Rightarrow> str \<Rightarrow> str" where
  "zero_pad w ds = replicate (w - length ds) 48 @ ds"

text \<open>
  \<open>format_fixed signed comma prec x\<close> is \<open>format(x, spec)\<close> for the specifications
  \<open>.2f\<close>, \<open>+.2f\<close> and \<open>,.2f\<close> of the source (\<open>signed\<close>: the flag \<open>+\<close>, \<open>comma\<close>: the
  thousands separator, \<open>prec\<close>: the digits after the point): the exact value of the float,
  rounded half to even at the last digit kept.
\<close>

definition sign_text :: "bool \<Rightarrow> bool \<Rightarrow> str" where
  "sign_text signed neg = (if neg then lit ''-'' else if signed then lit ''+'' else [])"

fun format_fixed :: "bool \<Rightarrow> bool \<Rightarrow> nat \<Rightarrow> pyfloat \<Rightarrow> str" where
  "format_fixed signed comma prec NaN = sign_text signed False @ lit ''nan''"
| "format_fixed signed comma prec (Infinity s) = sign_text signed s @ lit ''inf''"
| "format_fixed signed comma prec (Finite s m e) =
     (let n = (if 0 \<le> e then m * 2 ^ nat e * 10 ^ prec
               else round_half_even (m * 10 ^ prec) (2 ^ nat (- e)));
          whole = decimal (n div 10 ^ prec);
          frac = zero_pad prec (decimal (n mod 10 ^ prec))
      in sign_text signed s @ (if comma then group3 whole else whole)
         @ (if prec = 0 then [] else lit ''.'' @ frac))"

subsection \<open>Conversion of text to a float\<close>

text \<open>
  \<open>float(s)\<close> for a text \<open>s\<close>. Python first turns non-ASCII white space into a blank
  and the decimal digits of other scripts into ASCII digits, any other non-ASCII character
  into \<open>?\<close>. The decimal digits (category Nd) come in runs of ten, from zero to nine;
  \<open>digit_zeros\<close> lists the zero of each run beyond ASCII, as of Unicode 14.0, the
  character database of Python 3.11.
\<close>

definition unicode_space :: "nat \<Rightarrow> bool" where
  "unicode_space c \<longleftrightarrow>
     c \<in> {0x85, 0xA0, 0x1680, 0x2028, 0x2029, 0x202F, 0x205F, 0x3000} \<or> (0x2000 \<le> c \<and> c \<le> 0x200A)"

definition digit_zeros :: "nat list" where
  "digit_zeros =
     [0x660, 0x6F0, 0x7C0, 0x966, 0x9E6, 0xA66, 0xAE6, 0xB66, 0xBE6, 0xC66, 0xCE6, 0xD66,
      0xDE6, 0xE50, 0xED0, 0xF20, 0x1040, 0x1090, 0x17E0, 0x1810, 0x1946, 0x19D0, 0x1A80,
      0x1A90, 0x1B50, 0x1BB0, 0x1C40, 0x1C50, 0xA620, 0xA8D0, 0xA900, 0xA9D0, 0xA9F0, 0xAA50,
      0xABF0, 0xFF10, 0x104A0, 0x10D30, 0x11066, 0x110F0, 0x11136, 0x111D0, 0x112F0, 0x11450,
      0x114D0, 0x11650, 0x116C0, 0x11730, 0x118E0, 0x11950, 0x11C50, 0x11D50, 0x11DA0, 0x16A60,
      0x16AC0, 0x16B50, 0x1D7CE, 0x1D7D8, 0x1D7E2, 0x1D7EC, 0x1D7F6, 0x1E140, 0x1E2F0, 0x1E950,
      0x1FBF0]"

definition decimal_value :: "nat \<Rightarrow> nat option" where
  "decimal_value c = map_option (\<lambda>z. c - z) (find (\<lambda>z. z \<le> c \<and> c < z + 10) digit_zeros)"

definition to_ascii :: "nat \<Rightarrow> nat" where
  "to_ascii c =
     (if c < 127 then c
      else if unicode_space c then 32
      else case decimal_value c of Some d \<Rightarrow> 48 + d | None \<Rightarrow> 63)"

definition is_space :: "nat \<Rightarrow> bool" where
  "is_space c \<longleftrightarrow> c = 32 \<or> (9 \<le> c \<and> c \<le> 13)"

definition strip :: "str \<Rightarrow> str" where
  "strip s = rev (dropWhile is_space (rev (dropWhile is_space s)))"

text \<open>
  An underscore is allowed between two digits only; \<open>prev\<close> is the character before.
\<close>

fun drop_underscores :: "nat \<Rightarrow> str \<Rightarrow> str option" where
  "drop_underscores prev [] = (if prev = 95 then None else Some [])"
| "drop_underscores prev (c # cs) =
     (if c = 95 then (if is_digit prev then drop_underscores c cs else None)
      else if prev = 95 \<and> \<not> is_digit c then None
      else map_option ((#) c) (drop_underscores c cs))"

definition to_lower :: "nat \<Rightarrow> nat" where
  "to_lower c = (if 65 \<le> c \<and> c \<le> 90 then c + 32 else c)"

definition split_sign :: "str \<Rightarrow> bool \<times> str" where
  "split_sign s = (case s of [] \<Rightarrow> (False, [])
                   | c # cs \<Rightarrow> if c = 45 then (True, cs) else if c = 43 then (False, cs) else (False, s))"

text \<open>The exponent part: empty, or \<open>e\<close> or \<open>E\<close>, an optional sign and at least one digit.\<close>

definition parse_exponent :: "str \<Rightarrow> int option" where
  "parse_exponent s =
     (case s of [] \<Rightarrow> Some 0
      | c # cs \<Rightarrow>
          if c = 101 \<or> c = 69 then
            (let (neg, ds) = split_sign cs
             in if ds \<noteq> [] \<and> list_all is_digit ds
                then Some ((if neg then - 1 else 1) * int (nat_of_digits ds))
                else None)
          else None)"

text \<open>\<open>d * 10\<^sup>x\<close>, rounded to a float.\<close>

definition round_decimal :: "bool \<Rightarrow> nat \<Rightarrow> int \<Rightarrow> pyfloat" where
  "round_decimal s d x = (if 0 \<le> x then round_ratio s (d * 10 ^ nat x) 1 else round_ratio s d (10 ^ nat (- x)))"

definition parse_number :: "bool \<Rightarrow> str \<Rightarrow> pyfloat option" where
  "parse_number neg s =
     (let whole = takeWhile is_digit s; r = dropWhile is_digit s;
          frac = (case r of [] \<Rightarrow> [] | c # cs \<Rightarrow> if c = 46 then takeWhile is_digit cs else []);
          r' = (case r of [] \<Rightarrow> [] | c # cs \<Rightarrow> if c = 46 then dropWhile is_digit cs else r)
      in if whole = [] \<and> frac = [] then None
         else map_option (\<lambda>x. round_decimal neg (nat_of_digits (whole @ frac)) (x - int (length frac)))
                (parse_exponent r'))"

definition parse_inf_nan :: "bool \<Rightarrow> str \<Rightarrow> pyfloat option" where
  "parse_inf_nan neg s =
     (let l = map to_lower s
      in if l = lit ''inf'' \<or> l = lit ''infinity'' then Some (Infinity neg)
         else if l = lit ''nan'' then Some NaN
         else None)"

definition float_of_str :: "str \<Rightarrow> pyerr + pyfloat" where
  "float_of_str s =
     (case drop_underscores 0 (strip (map to_ascii s)) of
        None \<Rightarrow> Inl ValueError
      | Some t \<Rightarrow>
          (let (neg, body) = split_sign t
           in case parse_number neg body of
                Some x \<Rightarrow> Inr x
              | None \<Rightarrow> (case parse_inf_nan neg body of Some x \<Rightarrow> Inr x | None \<Rightarrow> Inl ValueError)))"

subsection \<open>The shortest text of a float\<close>

text \<open>
  \<open>repr\<close> of a float is the shortest decimal text that converts back to the same float,
  the nearest to it among those of that length. \<open>shortest m e\<close> gives its digits as a
  number \<open>d\<close> and an exponent \<open>x\<close> with \<open>d * 10\<^sup>x\<close> that text's value, for the float
  \<open>m * 2\<^sup>e\<close>, \<open>m > 0\<close>. The searches are bounded: no float is below \<open>10\<^sup>-\<^sup>3\<^sup>2\<^sup>4\<close>,
  and 17 digits tell any two floats apart.
\<close>

fun least_from :: "(nat \<Rightarrow> bool) \<Rightarrow> nat \<Rightarrow> nat \<Rightarrow> nat" where
  "least_from P j 0 = j"
| "least_from P j (Suc n) = (if P j then j else least_from P (Suc j) n)"

text \<open>The \<open>k\<close> with \<open>10\<^sup>k\<^sup>-\<^sup>1 \<le> p / q < 10\<^sup>k\<close>, for a float \<open>p / q\<close>.\<close>

definition decimal_exponent :: "nat \<Rightarrow> nat \<Rightarrow> int" where
  "decimal_exponent p q =
     (if q \<le> p then int (length (decimal (p div q)))
      else 1 - int (least_from (\<lambda>j. q \<le> p * 10 ^ j) 0 400))"

definition nearest_digits :: "nat \<Rightarrow> int \<Rightarrow> nat \<Rightarrow> int \<Rightarrow> nat option" where
  "nearest_digits m e n x =
     (let p = (if 0 \<le> e then m * 2 ^ nat e else m) * (if 0 \<le> x then 1 else 10 ^ nat (- x));
          q = (if 0 \<le> e then 1 else 2 ^ nat (- e)) * (if 0 \<le> x then 10 ^ nat x else 1);
          lo = p div q; r = p mod q;
          ok_lo = (round_decimal False lo x = Finite False m e);
          ok_hi = (round_decimal False (lo + 1) x = Finite False m e)
      in if ok_lo \<and> ok_hi then Some (if q < 2 * r \<or> (2 * r = q \<and> odd lo) then lo + 1 else lo)
         else if ok_lo then Some lo
         else if ok_hi then Some (lo + 1)
         else None)"

fun shortest_from :: "nat \<Rightarrow> int \<Rightarrow> int \<Rightarrow> nat \<Rightarrow> nat \<Rightarrow> nat \<times> int" where
  "shortest_from m e k n 0 = (0, 0)"
| "shortest_from m e k n (Suc fuel) =
     (case nearest_digits m e n (k - int n) of
        Some d \<Rightarrow> if d = 10 ^ n then (10 ^ (n - 1), k - int n + 1) else (d, k - int n)
      | None \<Rightarrow> shortest_from m e k (Suc n) fuel)"

definition shortest :: "nat \<Rightarrow> int \<Rightarrow> nat \<times> int" where
  "shortest m e =
     shortest_from m e
       (decimal_exponent (if 0 \<le> e then m * 2 ^ nat e else m) (if 0 \<le> e then 1 else 2 ^ nat (- e)))
       1 17"

definition float_repr :: "pyfloat \<Rightarrow> str" where
  "float_repr x =
     (case x of
        NaN \<Rightarrow> lit ''nan''
      | Infinity s \<Rightarrow> sign_text False s @ lit ''inf''
      | Finite s m e \<Rightarrow>
          sign_text False s @
          (if m = 0 then lit ''0.0''
           else
             let (d, x) = shortest m e; ds = decimal d; n = length ds; decpt = x + int n
             in if decpt \<le> - 4 \<or> 16 < decpt then
                  take 1 ds @ (if n = 1 then [] else lit ''.'' @ drop 1 ds) @ lit ''e''
                  @ (if decpt - 1 < 0 then lit ''-'' else lit ''+'')
                  @ zero_pad 2 (decimal (nat \<bar>decpt - 1\<bar>))
                else if decpt \<le> 0 then lit ''0.'' @ replicate (nat (- decpt)) 48 @ ds
                else if int n \<le> decpt then ds @ replicate (nat (decpt - int n)) 48 @ lit ''.0''
                else take (nat decpt) ds @ lit ''.'' @ drop (nat decpt) ds))"

subsection \<open>JSON values\<close>

text \<open>
  What \<open>request.json\<close> yields: \<open>None\<close>, a bool, an int, a float, a str, a list, or a
  dict with str keys (kept in insertion order, each key once).
\<close>

datatype json =
    JNull
  | JBool bool
  | JInt int
  | JFloat pyfloat
  | JStr str
  | JArr "json list"
  | JObj "(str \<times> json) list"

fun join :: "str \<Rightarrow> str list \<Rightarrow> str" where
  "join sep [] = []"
| "join sep [x] = x"
| "join sep (x # y # ys) = x @ sep @ join sep (y # ys)"

definition hex_digit :: "nat \<Rightarrow> nat" where
  "hex_digit d = (if d < 10 then 48 + d else 87 + d)"

fun hex :: "nat \<Rightarrow> nat \<Rightarrow> str" where
  "hex 0 n = []"
| "hex (Suc w) n = hex w (n div 16) @ [hex_digit (n mod 16)]"

text \<open>
  \<open>repr\<close> of a str escapes the characters that are not printable: the controls, the
  format characters, the surrogates, the private-use and unassigned code points and the
  separators other than the blank. \<open>unprintable_ranges\<close> lists them as ranges, both
  ends included, as of Unicode 14.0.
\<close>

definition unprintable_ranges :: "(nat \<times> nat) list" where
  "unprintable_ranges =
     [(0x0, 0x1F), (0x7F, 0xA0), (0xAD, 0xAD), (0x378, 0x379), (0x380, 0x383), (0x38B, 0x38B),
      (0x38D, 0x38D), (0x3A2, 0x3A2), (0x530, 0x530), (0x557, 0x558), (0x58B, 0x58C),
      (0x590, 0x590), (0x5C8, 0x5CF), (0x5EB, 0x5EE), (0x5F5, 0x605), (0x61C, 0x61C),
      (0x6DD, 0x6DD), (0x70E, 0x70F), (0x74B, 0x74C), (0x7B2, 0x7BF), (0x7FB, 0x7FC),
      (0x82E, 0x82F), (0x83F, 0x83F), (0x85C, 0x85D), (0x85F, 0x85F), (0x86B, 0x86F),
      (0x88F, 0x897), (0x8E2, 0x8E2), (0x984, 0x984), (0x98D, 0x98E), (0x991, 0x992),
      (0x9A9, 0x9A9), (0x9B1, 0x9B1), (0x9B3, 0x9B5), (0x9BA, 0x9BB), (0x9C5, 0x9C6),
      (0x9C9, 0x9CA), (0x9CF, 0x9D6), (0x9D8, 0x9DB), (0x9DE, 0x9DE), (0x9E4, 0x9E5),
      (0x9FF, 0xA00), (0xA04, 0xA04), (0xA0B, 0xA0E), (0xA11, 0xA12), (0xA29, 0xA29),
      (0xA31, 0xA31), (0xA34, 0xA34), (0xA37, 0xA37), (0xA3A, 0xA3B), (0xA3D, 0xA3D),
      (0xA43, 0xA46), (0xA49, 0xA4A), (0xA4E, 0xA50), (0xA52, 0xA58), (0xA5D, 0xA5D),
      (0xA5F, 0xA65), (0xA77, 0xA80), (0xA84, 0xA84), (0xA8E, 0xA8E), (0xA92, 0xA92),
      (0xAA9, 0xAA9), (0xAB1, 0xAB1), (0xAB4, 0xAB4), (0xABA, 0xABB), (0xAC6, 0xAC6),
      (0xACA, 0xACA), (0xACE, 0xACF), (0xAD1, 0xADF), (0xAE4, 0xAE5), (0xAF2, 0xAF8),
      (0xB00, 0xB00), (0xB04, 0xB04), (0xB0D, 0xB0E), (0xB11, 0xB12), (0xB29, 0xB29),
      (0xB31, 0xB31), (0xB34, 0xB34), (0xB3A, 0xB3B), (0xB45, 0xB46), (0xB49, 0xB4A),
      (0xB4E, 0xB54), (0xB58, 0xB5B), (0xB5E, 0xB5E), (0xB64, 0xB65), (0xB78, 0xB81),
      (0xB84, 0xB84), (0xB8B, 0xB8D), (0xB91, 0xB91), (0xB96, 0xB98), (0xB9B, 0xB9B),
      (0xB9D, 0xB9D), (0xBA0, 0xBA2), (0xBA5, 0xBA7), (0xBAB, 0xBAD), (0xBBA, 0xBBD),
      (0xBC3, 0xBC5), (0xBC9, 0xBC9), (0xBCE, 0xBCF), (0xBD1, 0xBD6), (0xBD8, 0xBE5),
      (0xBFB, 0xBFF), (0xC0D, 0xC0D), (0xC11, 0xC11), (0xC29, 0xC29), (0xC3A, 0xC3B),
      (0xC45, 0xC45), (0xC49, 0xC49), (0xC4E, 0xC54), (0xC57, 0xC57), (0xC5B, 0xC5C),
      (0xC5E, 0xC5F), (0xC64, 0xC65), (0xC70, 0xC76), (0xC8D, 0xC8D), (0xC91, 0xC91),
      (0xCA9, 0xCA9), (0xCB4, 0xCB4), (0xCBA, 0xCBB), (0xCC5, 0xCC5), (0xCC9, 0xCC9),
      (0xCCE, 0xCD4), (0xCD7, 0xCDC), (0xCDF, 0xCDF), (0xCE4, 0xCE5), (0xCF0, 0xCF0),
      (0xCF3, 0xCFF), (0xD0D, 0xD0D), (0xD11, 0xD11), (0xD45, 0xD45), (0xD49, 0xD49),
      (0xD50, 0xD53), (0xD64, 0xD65), (0xD80, 0xD80), (0xD84, 0xD84), (0xD97, 0xD99),
      (0xDB2, 0xDB2), (0xDBC, 0xDBC), (0xDBE, 0xDBF), (0xDC7, 0xDC9), (0xDCB, 0xDCE),
      (0xDD5, 0xDD5), (0xDD7, 0xDD7), (0xDE0, 0xDE5), (0xDF0, 0xDF1), (0xDF5, 0xE00),
      (0xE3B, 0xE3E), (0xE5C, 0xE80), (0xE83, 0xE83), (0xE85, 0xE85), (0xE8B, 0xE8B),
      (0xEA4, 0xEA4), (0xEA6, 0xEA6), (0xEBE, 0xEBF), (0xEC5, 0xEC5), (0xEC7, 0xEC7),
      (0xECE, 0xECF), (0xEDA, 0xEDB), (0xEE0, 0xEFF), (0xF48, 0xF48), (0xF6D, 0xF70),
      (0xF98, 0xF98), (0xFBD, 0xFBD), (0xFCD, 0xFCD), (0xFDB, 0xFFF), (0x10C6, 0x10C6),
      (0x10C8, 0x10CC), (0x10CE, 0x10CF), (0x1249, 0x1249), (0x124E, 0x124F), (0x1257, 0x1257),
      (0x1259, 0x1259), (0x125E, 0x125F), (0x1289, 0x1289), (0x128E, 0x128F), (0x12B1, 0x12B1),
      (0x12B6, 0x12B7), (0x12BF, 0x12BF), (0x12C1, 0x12C1), (0x12C6, 0x12C7), (0x12D7, 0x12D7),
      (0x1311, 0x1311), (0x1316, 0x1317), (0x135B, 0x135C), (0x137D, 0x137F), (0x139A, 0x139F),
      (0x13F6, 0x13F7), (0x13FE, 0x13FF), (0x1680, 0x1680), (0x169D, 0x169F), (0x16F9, 0x16FF),
      (0x1716, 0x171E), (0x1737, 0x173F), (0x1754, 0x175F), (0x176D, 0x176D), (0x1771, 0x1771),
      (0x1774, 0x177F), (0x17DE, 0x17DF), (0x17EA, 0x17EF), (0x17FA, 0x17FF), (0x180E, 0x180E),
      (0x181A, 0x181F), (0x1879, 0x187F), (0x18AB, 0x18AF), (0x18F6, 0x18FF), (0x191F, 0x191F),
      (0x192C, 0x192F), (0x193C, 0x193F), (0x1941, 0x1943), (0x196E, 0x196F), (0x1975, 0x197F),
      (0x19AC, 0x19AF), (0x19CA, 0x19CF), (0x19DB, 0x19DD), (0x1A1C, 0x1A1D), (0x1A5F, 0x1A5F),
      (0x1A7D, 0x1A7E), (0x1A8A, 0x1A8F), (0x1A9A, 0x1A9F), (0x1AAE, 0x1AAF), (0x1ACF, 0x1AFF),
      (0x1B4D, 0x1B4F), (0x1B7F, 0x1B7F), (0x1BF4, 0x1BFB), (0x1C38, 0x1C3A), (0x1C4A, 0x1C4C),
      (0x1C89, 0x1C8F), (0x1CBB, 0x1CBC), (0x1CC8, 0x1CCF), (0x1CFB, 0x1CFF), (0x1F16, 0x1F17),
      (0x1F1E, 0x1F1F), (0x1F46, 0x1F47), (0x1F4E, 0x1F4F), (0x1F58, 0x1F58), (0x1F5A, 0x1F5A),
      (0x1F5C, 0x1F5C), (0x1F5E, 0x1F5E), (0x1F7E, 0x1F7F), (0x1FB5, 0x1FB5), (0x1FC5, 0x1FC5),
      (0x1FD4, 0x1FD5), (0x1FDC, 0x1FDC), (0x1FF0, 0x1FF1), (0x1FF5, 0x1FF5), (0x1FFF, 0x200F),
      (0x2028, 0x202F), (0x205F, 0x206F), (0x2072, 0x2073), (0x208F, 0x208F), (0x209D, 0x209F),
      (0x20C1, 0x20CF), (0x20F1, 0x20FF), (0x218C, 0x218F), (0x2427, 0x243F), (0x244B, 0x245F),
      (0x2B74, 0x2B75), (0x2B96, 0x2B96), (0x2CF4, 0x2CF8), (0x2D26, 0x2D26), (0x2D28, 0x2D2C),
      (0x2D2E, 0x2D2F), (0x2D68, 0x2D6E), (0x2D71, 0x2D7E), (0x2D97, 0x2D9F), (0x2DA7, 0x2DA7),
      (0x2DAF, 0x2DAF), (0x2DB7, 0x2DB7), (0x2DBF, 0x2DBF), (0x2DC7, 0x2DC7), (0x2DCF, 0x2DCF),
      (0x2DD7, 0x2DD7), (0x2DDF, 0x2DDF), (0x2E5E, 0x2E7F), (0x2E9A, 0x2E9A), (0x2EF4, 0x2EFF),
      (0x2FD6, 0x2FEF), (0x2FFC, 0x3000), (0x3040, 0x3040), (0x3097, 0x3098), (0x3100, 0x3104),
      (0x3130, 0x3130), (0x318F, 0x318F), (0x31E4, 0x31EF), (0x321F, 0x321F), (0xA48D, 0xA48F),
      (0xA4C7, 0xA4CF), (0xA62C, 0xA63F), (0xA6F8, 0xA6FF), (0xA7CB, 0xA7CF), (0xA7D2, 0xA7D2),
      (0xA7D4, 0xA7D4), (0xA7DA, 0xA7F1), (0xA82D, 0xA82F), (0xA83A, 0xA83F), (0xA878, 0xA87F),
      (0xA8C6, 0xA8CD), (0xA8DA, 0xA8DF), (0xA954, 0xA95E), (0xA97D, 0xA97F), (0xA9CE, 0xA9CE),
      (0xA9DA, 0xA9DD), (0xA9FF, 0xA9FF), (0xAA37, 0xAA3F), (0xAA4E, 0xAA4F), (0xAA5A, 0xAA5B),
      (0xAAC3, 0xAADA), (0xAAF7, 0xAB00), (0xAB07, 0xAB08), (0xAB0F, 0xAB10), (0xAB17, 0xAB1F),
      (0xAB27, 0xAB27), (0xAB2F, 0xAB2F), (0xAB6C, 0xAB6F), (0xABEE, 0xABEF), (0xABFA, 0xABFF),
      (0xD7A4, 0xD7AF), (0xD7C7, 0xD7CA), (0xD7FC, 0xF8FF), (0xFA6E, 0xFA6F), (0xFADA, 0xFAFF),
      (0xFB07, 0xFB12), (0xFB18, 0xFB1C), (0xFB37, 0xFB37), (0xFB3D, 0xFB3D), (0xFB3F, 0xFB3F),
      (0xFB42, 0xFB42), (0xFB45, 0xFB45), (0xFBC3, 0xFBD2), (0xFD90, 0xFD91), (0xFDC8, 0xFDCE),
      (0xFDD0, 0xFDEF), (0xFE1A, 0xFE1F), (0xFE53, 0xFE53), (0xFE67, 0xFE67), (0xFE6C, 0xFE6F),
      (0xFE75, 0xFE75), (0xFEFD, 0xFF00), (0xFFBF, 0xFFC1), (0xFFC8, 0xFFC9), (0xFFD0, 0xFFD1),
      (0xFFD8, 0xFFD9), (0xFFDD, 0xFFDF), (0xFFE7, 0xFFE7), (0xFFEF, 0xFFFB), (0xFFFE, 0xFFFF),
      (0x1000C, 0x1000C), (0x10027, 0x10027), (0x1003B, 0x1003B), (0x1003E, 0x1003E),
      (0x1004E, 0x1004F), (0x1005E, 0x1007F), (0x100FB, 0x100FF), (0x10103, 0x10106),
      (0x10134, 0x10136), (0x1018F, 0x1018F), (0x1019D, 0x1019F), (0x101A1, 0x101CF),
      (0x101FE, 0x1027F), (0x1029D, 0x1029F), (0x102D1, 0x102DF), (0x102FC, 0x102FF),
      (0x10324, 0x1032C), (0x1034B, 0x1034F), (0x1037B, 0x1037F), (0x1039E, 0x1039E),
      (0x103C4, 0x103C7), (0x103D6, 0x103FF), (0x1049E, 0x1049F), (0x104AA, 0x104AF),
      (0x104D4, 0x104D7), (0x104FC, 0x104FF), (0x10528, 0x1052F), (0x10564, 0x1056E),
      (0x1057B, 0x1057B), (0x1058B, 0x1058B), (0x10593, 0x10593), (0x10596, 0x10596),
      (0x105A2, 0x105A2), (0x105B2, 0x105B2), (0x105BA, 0x105BA), (0x105BD, 0x105FF),
      (0x10737, 0x1073F), (0x10756, 0x1075F), (0x10768, 0x1077F), (0x10786, 0x10786),
      (0x107B1, 0x107B1), (0x107BB, 0x107FF), (0x10806, 0x10807), (0x10809, 0x10809),
      (0x10836, 0x10836), (0x10839, 0x1083B), (0x1083D, 0x1083E), (0x10856, 0x10856),
      (0x1089F, 0x108A6), (0x108B0, 0x108DF), (0x108F3, 0x108F3), (0x108F6, 0x108FA),
      (0x1091C, 0x1091E), (0x1093A, 0x1093E), (0x10940, 0x1097F), (0x109B8, 0x109BB),
      (0x109D0, 0x109D1), (0x10A04, 0x10A04), (0x10A07, 0x10A0B), (0x10A14, 0x10A14),
      (0x10A18, 0x10A18), (0x10A36, 0x10A37), (0x10A3B, 0x10A3E), (0x10A49, 0x10A4F),
      (0x10A59, 0x10A5F), (0x10AA0, 0x10ABF), (0x10AE7, 0x10AEA), (0x10AF7, 0x10AFF),
      (0x10B36, 0x10B38), (0x10B56, 0x10B57), (0x10B73, 0x10B77), (0x10B92, 0x10B98),
      (0x10B9D, 0x10BA8), (0x10BB0, 0x10BFF), (0x10C49, 0x10C7F), (0x10CB3, 0x10CBF),
      (0x10CF3, 0x10CF9), (0x10D28, 0x10D2F), (0x10D3A, 0x10E5F), (0x10E7F, 0x10E7F),
      (0x10EAA, 0x10EAA), (0x10EAE, 0x10EAF), (0x10EB2, 0x10EFF), (0x10F28, 0x10F2F),
      (0x10F5A, 0x10F6F), (0x10F8A, 0x10FAF), (0x10FCC, 0x10FDF), (0x10FF7, 0x10FFF),
      (0x1104E, 0x11051), (0x11076, 0x1107E), (0x110BD, 0x110BD), (0x110C3, 0x110CF),
      (0x110E9, 0x110EF), (0x110FA, 0x110FF), (0x11135, 0x11135), (0x11148, 0x1114F),
      (0x11177, 0x1117F), (0x111E0, 0x111E0), (0x111F5, 0x111FF), (0x11212, 0x11212),
      (0x1123F, 0x1127F), (0x11287, 0x11287), (0x11289, 0x11289), (0x1128E, 0x1128E),
      (0x1129E, 0x1129E), (0x112AA, 0x112AF), (0x112EB, 0x112EF), (0x112FA, 0x112FF),
      (0x11304, 0x11304), (0x1130D, 0x1130E), (0x11311, 0x11312), (0x11329, 0x11329),
      (0x11331, 0x11331), (0x11334, 0x11334), (0x1133A, 0x1133A), (0x11345, 0x11346),
      (0x11349, 0x1134A), (0x1134E, 0x1134F), (0x11351, 0x11356), (0x11358, 0x1135C),
      (0x11364, 0x11365), (0x1136D, 0x1136F), (0x11375, 0x113FF), (0x1145C, 0x1145C),
      (0x11462, 0x1147F), (0x114C8, 0x114CF), (0x114DA, 0x1157F), (0x115B6, 0x115B7),
      (0x115DE, 0x115FF), (0x11645, 0x1164F), (0x1165A, 0x1165F), (0x1166D, 0x1167F),
      (0x116BA, 0x116BF), (0x116CA, 0x116FF), (0x1171B, 0x1171C), (0x1172C, 0x1172F),
      (0x11747, 0x117FF), (0x1183C, 0x1189F), (0x118F3, 0x118FE), (0x11907, 0x11908),
      (0x1190A, 0x1190B), (0x11914, 0x11914), (0x11917, 0x11917), (0x11936, 0x11936),
      (0x11939, 0x1193A), (0x11947, 0x1194F), (0x1195A, 0x1199F), (0x119A8, 0x119A9),
      (0x119D8, 0x119D9), (0x119E5, 0x119FF), (0x11A48, 0x11A4F), (0x11AA3, 0x11AAF),
      (0x11AF9, 0x11BFF), (0x11C09, 0x11C09), (0x11C37, 0x11C37), (0x11C46, 0x11C4F),
      (0x11C6D, 0x11C6F), (0x11C90, 0x11C91), (0x11CA8, 0x11CA8), (0x11CB7, 0x11CFF),
      (0x11D07, 0x11D07), (0x11D0A, 0x11D0A), (0x11D37, 0x11D39), (0x11D3B, 0x11D3B),
      (0x11D3E, 0x11D3E), (0x11D48, 0x11D4F), (0x11D5A, 0x11D5F), (0x11D66, 0x11D66),
      (0x11D69, 0x11D69), (0x11D8F, 0x11D8F), (0x11D92, 0x11D92), (0x11D99, 0x11D9F),
      (0x11DAA, 0x11EDF), (0x11EF9, 0x11FAF), (0x11FB1, 0x11FBF), (0x11FF2, 0x11FFE),
      (0x1239A, 0x123FF), (0x1246F, 0x1246F), (0x12475, 0x1247F), (0x12544, 0x12F8F),
      (0x12FF3, 0x12FFF), (0x1342F, 0x143FF), (0x14647, 0x167FF), (0x16A39, 0x16A3F),
      (0x16A5F, 0x16A5F), (0x16A6A, 0x16A6D), (0x16ABF, 0x16ABF), (0x16ACA, 0x16ACF),
      (0x16AEE, 0x16AEF), (0x16AF6, 0x16AFF), (0x16B46, 0x16B4F), (0x16B5A, 0x16B5A),
      (0x16B62, 0x16B62), (0x16B78, 0x16B7C), (0x16B90, 0x16E3F), (0x16E9B, 0x16EFF),
      (0x16F4B, 0x16F4E), (0x16F88, 0x16F8E), (0x16FA0, 0x16FDF), (0x16FE5, 0x16FEF),
      (0x16FF2, 0x16FFF), (0x187F8, 0x187FF), (0x18CD6, 0x18CFF), (0x18D09, 0x1AFEF),
      (0x1AFF4, 0x1AFF4), (0x1AFFC, 0x1AFFC), (0x1AFFF, 0x1AFFF), (0x1B123, 0x1B14F),
      (0x1B153, 0x1B163), (0x1B168, 0x1B16F), (0x1B2FC, 0x1BBFF), (0x1BC6B, 0x1BC6F),
      (0x1BC7D, 0x1BC7F), (0x1BC89, 0x1BC8F), (0x1BC9A, 0x1BC9B), (0x1BCA0, 0x1CEFF),
      (0x1CF2E, 0x1CF2F), (0x1CF47, 0x1CF4F), (0x1CFC4, 0x1CFFF), (0x1D0F6, 0x1D0FF),
      (0x1D127, 0x1D128), (0x1D173, 0x1D17A), (0x1D1EB, 0x1D1FF), (0x1D246, 0x1D2DF),
      (0x1D2F4, 0x1D2FF), (0x1D357, 0x1D35F), (0x1D379, 0x1D3FF), (0x1D455, 0x1D455),
      (0x1D49D, 0x1D49D), (0x1D4A0, 0x1D4A1), (0x1D4A3, 0x1D4A4), (0x1D4A7, 0x1D4A8),
      (0x1D4AD, 0x1D4AD), (0x1D4BA, 0x1D4BA), (0x1D4BC, 0x1D4BC), (0x1D4C4, 0x1D4C4),
      (0x1D506, 0x1D506), (0x1D50B, 0x1D50C), (0x1D515, 0x1D515), (0x1D51D, 0x1D51D),
      (0x1D53A, 0x1D53A), (0x1D53F, 0x1D53F), (0x1D545, 0x1D545), (0x1D547, 0x1D549),
      (0x1D551, 0x1D551), (0x1D6A6, 0x1D6A7), (0x1D7CC, 0x1D7CD), (0x1DA8C, 0x1DA9A),
      (0x1DAA0, 0x1DAA0), (0x1DAB0, 0x1DEFF), (0x1DF1F, 0x1DFFF), (0x1E007, 0x1E007),
      (0x1E019, 0x1E01A), (0x1E022, 0x1E022), (0x1E025, 0x1E025), (0x1E02B, 0x1E0FF),
      (0x1E12D, 0x1E12F), (0x1E13E, 0x1E13F), (0x1E14A, 0x1E14D), (0x1E150, 0x1E28F),
      (0x1E2AF, 0x1E2BF), (0x1E2FA, 0x1E2FE), (0x1E300, 0x1E7DF), (0x1E7E7, 0x1E7E7),
      (0x1E7EC, 0x1E7EC), (0x1E7EF, 0x1E7EF), (0x1E7FF, 0x1E7FF), (0x1E8C5, 0x1E8C6),
      (0x1E8D7, 0x1E8FF), (0x1E94C, 0x1E94F), (0x1E95A, 0x1E95D), (0x1E960, 0x1EC70),
      (0x1ECB5, 0x1ED00), (0x1ED3E, 0x1EDFF), (0x1EE04, 0x1EE04), (0x1EE20, 0x1EE20),
      (0x1EE23, 0x1EE23), (0x1EE25, 0x1EE26), (0x1EE28, 0x1EE28), (0x1EE33, 0x1EE33),
      (0x1EE38, 0x1EE38), (0x1EE3A, 0x1EE3A), (0x1EE3C, 0x1EE41), (0x1EE43, 0x1EE46),
      (0x1EE48, 0x1EE48), (0x1EE4A, 0x1EE4A), (0x1EE4C, 0x1EE4C), (0x1EE50, 0x1EE50),
      (0x1EE53, 0x1EE53), (0x1EE55, 0x1EE56), (0x1EE58, 0x1EE58), (0x1EE5A, 0x1EE5A),
      (0x1EE5C, 0x1EE5C), (0x1EE5E, 0x1EE5E), (0x1EE60, 0x1EE60), (0x1EE63, 0x1EE63),
      (0x1EE65, 0x1EE66), (0x1EE6B, 0x1EE6B), (0x1EE73, 0x1EE73), (0x1EE78, 0x1EE78),
      (0x1EE7D, 0x1EE7D), (0x1EE7F, 0x1EE7F), (0x1EE8A, 0x1EE8A), (0x1EE9C, 0x1EEA0),
      (0x1EEA4, 0x1EEA4), (0x1EEAA, 0x1EEAA), (0x1EEBC, 0x1EEEF), (0x1EEF2, 0x1EFFF),
      (0x1F02C, 0x1F02F), (0x1F094, 0x1F09F), (0x1F0AF, 0x1F0B0), (0x1F0C0, 0x1F0C0),
      (0x1F0D0, 0x1F0D0), (0x1F0F6, 0x1F0FF), (0x1F1AE, 0x1F1E5), (0x1F203, 0x1F20F),
      (0x1F23C, 0x1F23F), (0x1F249, 0x1F24F), (0x1F252, 0x1F25F), (0x1F266, 0x1F2FF),
      (0x1F6D8, 0x1F6DC), (0x1F6ED, 0x1F6EF), (0x1F6FD, 0x1F6FF), (0x1F774, 0x1F77F),
      (0x1F7D9, 0x1F7DF), (0x1F7EC, 0x1F7EF), (0x1F7F1, 0x1F7FF), (0x1F80C, 0x1F80F),
      (0x1F848, 0x1F84F), (0x1F85A, 0x1F85F), (0x1F888, 0x1F88F), (0x1F8AE, 0x1F8AF),
      (0x1F8B2, 0x1F8FF), (0x1FA54, 0x1FA5F), (0x1FA6E, 0x1FA6F), (0x1FA75, 0x1FA77),
      (0x1FA7D, 0x1FA7F), (0x1FA87, 0x1FA8F), (0x1FAAD, 0x1FAAF), (0x1FABB, 0x1FABF),
      (0x1FAC6, 0x1FACF), (0x1FADA, 0x1FADF), (0x1FAE8, 0x1FAEF), (0x1FAF7, 0x1FAFF),
      (0x1FB93, 0x1FB93), (0x1FBCB, 0x1FBEF), (0x1FBFA, 0x1FFFF), (0x2A6E0, 0x2A6FF),
      (0x2B739, 0x2B73F), (0x2B81E, 0x2B81F), (0x2CEA2, 0x2CEAF), (0x2EBE1, 0x2F7FF),
      (0x2FA1E, 0x2FFFF), (0x3134B, 0xE00FF), (0xE01F0, 0x10FFFF)]"

definition printable :: "nat \<Rightarrow> bool" where
  "printable c \<longleftrightarrow> list_all (\<lambda>(lo, hi). c < lo \<or> hi < c) unprintable_ranges"

definition repr_char :: "nat \<Rightarrow> nat \<Rightarrow> str" where
  "repr_char quote c =
     (if c = quote \<or> c = 92 then [92, c]
      else if c = 9 then [92] @ lit ''t''
      else if c = 10 then [92] @ lit ''n''
      else if c = 13 then [92] @ lit ''r''
      else if printable c then [c]
      else if c < 0x100 then [92] @ lit ''x'' @ hex 2 c
      else if c < 0x10000 then [92] @ lit ''u'' @ hex 4 c
      else [92] @ lit ''U'' @ hex 8 c)"

definition str_repr :: "str \<Rightarrow> str" where
  "str_repr s =
     (let quote = (if 39 \<in> set s \<and> 34 \<notin> set s then 34 else 39)
      in [quote] @ concat (map (repr_char quote) s) @ [quote])"

fun py_repr :: "json \<Rightarrow> str" where
  "py_repr JNull = lit ''None''"
| "py_repr (JBool b) = (if b then lit ''True'' else lit ''False'')"
| "py_repr (JInt i) = str_of_int i"
| "py_repr (JFloat x) = float_repr x"
| "py_repr (JStr s) = str_repr s"
| "py_repr (JArr xs) = lit ''['' @ join (lit '', '') (map py_repr xs) @ lit '']''"
| "py_repr (JObj kvs) =
     lit ''{'' @ join (lit '', '') (map (\<lambda>(k, v). str_repr k @ lit '': '' @ py_repr v) kvs) @ lit ''}''"

text \<open>\<open>str(v)\<close>, which is also what an f-string puts in place of \<open>{v}\<close>.\<close>

definition py_str :: "json \<Rightarrow> str" where
  "py_str v = (case v of JStr s \<Rightarrow> s | _ \<Rightarrow> py_repr v)"

text \<open>\<open>float(v)\<close>.\<close>

definition py_float :: "json \<Rightarrow> pyerr + pyfloat" where
  "py_float v =
     (case v of
        JNull \<Rightarrow> Inl TypeError
      | JBool b \<Rightarrow> float_of_int (if b then 1 else 0)
      | JInt i \<Rightarrow> float_of_int i
      | JFloat x \<Rightarrow> Inr x
      | JStr s \<Rightarrow> float_of_str s
      | JArr xs \<Rightarrow> Inl TypeError
      | JObj kvs \<Rightarrow> Inl TypeError)"

subsection \<open>\<open>json.dumps(data, indent=2)\<close>\<close>

definition json_char :: "nat \<Rightarrow> str" where
  "json_char c =
     (if c = 34 then [92, 34]
      else if c = 92 then [92, 92]
      else if c = 10 then [92] @ lit ''n''
      else if c = 13 then [92] @ lit ''r''
      else if c = 9 then [92] @ lit ''t''
      else if c = 8 then [92] @ lit ''b''
      else if c = 12 then [92] @ lit ''f''
      else if 32 \<le> c \<and> c \<le> 126 then [c]
      else if c < 0x10000 then [92] @ lit ''u'' @ hex 4 c
      else [92] @ lit ''u'' @ hex 4 (0xD800 + (c - 0x10000) div 0x400)
           @ [92] @ lit ''u'' @ hex 4 (0xDC00 + (c - 0x10000) mod 0x400))"

definition json_string :: "str \<Rightarrow> str" where
  "json_string s = [34] @ concat (map json_char s) @ [34]"

definition json_float :: "pyfloat \<Rightarrow> str" where
  "json_float x =
     (case x of
        NaN \<Rightarrow> lit ''NaN''
      | Infinity s \<Rightarrow> sign_text False s @ lit ''Infinity''
      | Finite s m e \<Rightarrow> float_repr x)"

definition newline_indent :: "nat \<Rightarrow> str" where
  "newline_indent level = [10] @ replicate (2 * level) 32"

fun dumps :: "nat \<Rightarrow> json \<Rightarrow> str" where
  "dumps level JNull = lit ''null''"
| "dumps level (JBool b) = (if b then lit ''true'' else lit ''false'')"
| "dumps level (JInt i) = str_of_int i"
| "dumps level (JFloat x) = json_float x"
| "dumps level (JStr s) = json_string s"
| "dumps level (JArr xs) =
     (if xs = [] then lit ''[]''
      else lit ''['' @ newline_indent (Suc level)
           @ join (lit '','' @ newline_indent (Suc level)) (map (dumps (Suc level)) xs)
           @ newline_indent level @ lit '']'')"
| "dumps level (JObj kvs) =
     (if kvs = [] then lit ''{}''
      else lit ''{'' @ newline_indent (Suc level)
           @ join (lit '','' @ newline_indent (Suc level))
               (map (\<lambda>(k, v). json_string k @ lit '': '' @ dumps (Suc level) v) kvs)
           @ newline_indent level @ lit ''}'')"

definition json_dumps :: "json \<Rightarrow> str" where
  "json_dumps data = dumps 0 data"

section \<open>The relay\<close>

subsection \<open>Messages and the running system\<close>

text \<open>
  A \<open>discord.Embed\<close> holds a title, an optional description, a colour, a timestamp, its
  fields in the order added and an optional footer text. \<open>add_field\<close> and \<open>set_footer\<close>
  are the methods of that name; \<open>add_field\<close> keeps \<open>str\<close> of the value it is given, so
  a caller that passes a payload value passes \<open>py_str\<close> of it here.
\<close>

record embed_field =
  field_name :: str
  field_value :: str
  inline :: bool

record embed =
  title :: str
  description :: "str option"
  color :: nat
  timestamp :: int
  embed_fields :: "embed_field list"
  footer :: "str option"

definition Embed :: "str \<Rightarrow> str option \<Rightarrow> nat \<Rightarrow> int \<Rightarrow> embed" where
  "Embed t d c ts = \<lparr>title = t, description = d, color = c, timestamp = ts, embed_fields = [], footer = None\<rparr>"

definition add_field :: "str \<Rightarrow> str \<Rightarrow> bool \<Rightarrow> embed \<Rightarrow> embed" where
  "add_field n v i e = e\<lparr>embed_fields := embed_fields e @ [\<lparr>field_name = n, field_value = v, inline = i\<rparr>]\<rparr>"

definition set_footer :: "str \<Rightarrow> embed \<Rightarrow> embed" where
  "set_footer t e = e\<lparr>footer := Some t\<rparr>"

text \<open>The text of the first field of a given name, if there is one.\<close>

definition field_text :: "str \<Rightarrow> embed \<Rightarrow> str option" where
  "field_text n e = map_option field_value (find (\<lambda>f. field_name f = n) (embed_fields e))"

text \<open>What \<open>channel.send\<close> is given: a text, or an embed.\<close>

datatype message = Content str | Embedded embed

text \<open>
  The configuration read at start, and the state of the process and of what lies around
  it: the channels the client resolves, which messages the platform takes, the clock,
  whether \<open>bot.loop.create_task\<close> raises (with the text of its exception, as it does
  while the client has not been started), the messages delivered (with their channel),
  the payloads of the tasks created on the bot's loop, and the lines printed.
\<close>

record config =
  DISCORD_CHANNEL_ID :: int
  WEBHOOK_SECRET :: str

record system =
  channels :: "int list"
  accepts :: "message \<Rightarrow> bool"
  utcnow :: int
  loop_error :: "str option"
  sent :: "(int \<times> message) list"
  scheduled :: "json list"
  printed :: "str list"

definition py_print :: "str \<Rightarrow> system \<Rightarrow> system" where
  "py_print line st = st\<lparr>printed := printed st @ [line]\<rparr>"

definition get_channel :: "system \<Rightarrow> int \<Rightarrow> int option" where
  "get_channel st channel_id = (if channel_id \<in> set (channels st) then Some channel_id else None)"

text \<open>\<open>await channel.send(...)\<close>: the message is delivered, or the client raises.\<close>

definition channel_send :: "int \<Rightarrow> message \<Rightarrow> system \<Rightarrow> (pyerr + unit) \<times> system" where
  "channel_send channel msg st =
     (if accepts st msg then (Inr (), st\<lparr>sent := sent st @ [(channel, msg)]\<rparr>)
      else (Inl HTTPException, st))"

definition create_task :: "json \<Rightarrow> system \<Rightarrow> system" where
  "create_task data st = st\<lparr>scheduled := scheduled st @ [data]\<rparr>"

subsection \<open>Reading the payload\<close>

text \<open>\<open>data.get(key, default)\<close> on a dict, and the sequencing of steps that may raise.\<close>

definition dict_get :: "(str \<times> json) list \<Rightarrow> str \<Rightarrow> json \<Rightarrow> json" where
  "dict_get d key dflt = (case map_of d key of Some v \<Rightarrow> v | None \<Rightarrow> dflt)"

definition and_then :: "'e + 'a \<Rightarrow> ('a \<Rightarrow> 'e + 'b) \<Rightarrow> 'e + 'b" where
  "and_then r f = (case r of Inl e \<Rightarrow> Inl e | Inr x \<Rightarrow> f x)"

definition green :: nat where "green = 0x00FF00"

definition red :: nat where "red = 0xFF0000"

subsection \<open>The formatters\<close>

text \<open>
  Each \<open>send_*_alert\<close> of the source builds an embed and sends it. The building part is
  given a name of its own here (\<open>entry_embed\<close> for \<open>send_entry_alert\<close>, and so on), with
  the reading of \<open>datetime.utcnow()\<close> as an argument. A payload that is not a dict has no
  \<open>get\<close>: the first statement raises \<open>AttributeError\<close>.
\<close>

definition entry_embed :: "int \<Rightarrow> json \<Rightarrow> pyerr + embed" where
  "entry_embed now data =
     (case data of
        JObj d \<Rightarrow>
          (let direction = dict_get d (lit ''direction'') (JStr (lit ''UNKNOWN''))
           in and_then (py_float (dict_get d (lit ''entry'') (JInt 0))) (\<lambda>entry.
              and_then (py_float (dict_get d (lit ''stop'') (JInt 0))) (\<lambda>stop.
              and_then (py_float (dict_get d (lit ''tp1'') (JInt 0))) (\<lambda>tp1.
              and_then (py_float (dict_get d (lit ''tp2'') (JInt 0))) (\<lambda>tp2.
              let mode = dict_get d (lit ''mode'') (JStr []);
                  time_str = dict_get d (lit ''time'') (JStr []);
                  day = dict_get d (lit ''day'') (JStr []);
                  timeframe = dict_get d (lit ''timeframe'') (JStr (lit ''Unknown''));
                  risk = float_abs (float_sub entry stop);
                  tp1_dist = float_abs (float_sub tp1 entry);
                  tp2_dist = float_abs (float_sub tp2 entry);
                  color = (if direction = JStr (lit ''LONG'') then green else red);
                  emoji = (if direction = JStr (lit ''LONG'') then [0x1F7E2] else [0x1F534]);
                  embed = Embed (emoji @ lit '' '' @ py_str direction @ lit '' ENTRY - '' @ py_str mode
                                 @ lit '' ['' @ py_str timeframe @ lit '']'')
                            None color now;
                  embed = add_field ([0x1F4CD] @ lit '' Entry'')
                            (lit ''**'' @ format_fixed False True 2 entry @ lit ''**'') True embed;
                  embed = add_field ([0x1F6D1] @ lit '' Stop Loss'')
                            (format_fixed False True 2 stop @ [10] @ lit ''(''
                             @ format_fixed True False 2 risk @ lit '' pts)'') True embed;
                  embed = add_field ([0x1F4CA] @ lit '' Risk'')
                            (lit ''**'' @ format_fixed False False 2 risk @ lit ''** pts'') True embed;
                  embed = add_field ([0x1F3AF] @ lit '' TP1 (1.3R)'')
                            (format_fixed False True 2 tp1 @ [10] @ lit ''(''
                             @ format_fixed True False 2 tp1_dist @ lit '' pts)'') True embed;
                  embed = add_field ([0x1F3AF] @ lit '' TP2 (2.0R)'')
                            (format_fixed False True 2 tp2 @ [10] @ lit ''(''
                             @ format_fixed True False 2 tp2_dist @ lit '' pts)'') True embed;
                  embed = add_field ([0x23F0] @ lit '' Time'')
                            (py_str time_str @ [10] @ py_str day) True embed;
                  embed = (case map_of d (lit ''mo_bias'') of
                             Some mo_bias \<Rightarrow>
                               add_field ([0x1F319] @ lit '' Midnight Open'') (py_str mo_bias) False embed
                           | None \<Rightarrow> embed);
                  embed = set_footer (lit ''ICT Pro v10 Optimized | '' @ py_str timeframe
                                      @ lit '' Chart | Trade at your own risk'') embed
              in Inr embed)))))
      | _ \<Rightarrow> Inl AttributeError)"

definition tp1_embed :: "int \<Rightarrow> json \<Rightarrow> pyerr + embed" where
  "tp1_embed now data =
     (case data of
        JObj d \<Rightarrow>
          (let direction = dict_get d (lit ''direction'') (JStr (lit ''UNKNOWN''))
           in and_then (py_float (dict_get d (lit ''price'') (JInt 0))) (\<lambda>price.
              and_then (py_float (dict_get d (lit ''profit'') (JInt 0))) (\<lambda>profit.
              let color = (if direction = JStr (lit ''LONG'') then green else red);
                  embed = Embed ([0x2705] @ lit '' TP1 HIT - 50% Closed'')
                            (Some (lit ''**'' @ py_str direction @ lit ''** position moved to breakeven''))
                            color now;
                  embed = add_field ([0x1F4B0] @ lit '' TP1 Price'') (format_fixed False True 2 price) True embed;
                  embed = add_field ([0x1F4C8] @ lit '' Profit'')
                            (lit ''+'' @ format_fixed False False 2 profit @ lit '' pts'') True embed;
                  embed = add_field ([0x1F512] @ lit '' Status'') (lit ''Breakeven Active'') True embed;
                  embed = set_footer (lit ''Remaining 50% running to TP2'') embed
              in Inr embed)))
      | _ \<Rightarrow> Inl AttributeError)"

definition tp2_embed :: "int \<Rightarrow> json \<Rightarrow> pyerr + embed" where
  "tp2_embed now data =
     (case data of
        JObj d \<Rightarrow>
          (let direction = dict_get d (lit ''direction'') (JStr (lit ''UNKNOWN''))
           in and_then (py_float (dict_get d (lit ''price'') (JInt 0))) (\<lambda>price.
              and_then (py_float (dict_get d (lit ''profit'') (JInt 0))) (\<lambda>profit.
              let embed = Embed ([0x1F3AF] @ lit '' TP2 HIT - Trade Complete'')
                            (Some (lit ''**'' @ py_str direction @ lit ''** position fully closed''))
                            green now;
                  embed = add_field ([0x1F4B0] @ lit '' TP2 Price'') (format_fixed False True 2 price) True embed;
                  embed = add_field ([0x1F4C8] @ lit '' Total Profit'')
                            (lit ''+'' @ format_fixed False False 2 profit @ lit '' pts'') True embed;
                  embed = add_field ([0x2705] @ lit '' Result'') (lit ''WINNER'') True embed
              in Inr embed)))
      | _ \<Rightarrow> Inl AttributeError)"

definition sl_embed :: "int \<Rightarrow> json \<Rightarrow> pyerr + embed" where
  "sl_embed now data =
     (case data of
        JObj d \<Rightarrow>
          (let direction = dict_get d (lit ''direction'') (JStr (lit ''UNKNOWN''))
           in and_then (py_float (dict_get d (lit ''price'') (JInt 0))) (\<lambda>price.
              and_then (py_float (dict_get d (lit ''loss'') (JInt 0))) (\<lambda>loss.
              let embed = Embed ([0x1F6D1] @ lit '' STOP LOSS HIT'')
                            (Some (lit ''**'' @ py_str direction @ lit ''** position closed at stop''))
                            red now;
                  embed = add_field ([0x1F4B0] @ lit '' Exit Price'') (format_fixed False True 2 price) True embed;
                  embed = add_field ([0x1F4C9] @ lit '' Loss'')
                            (format_fixed False False 2 loss @ lit '' pts'') True embed;
                  embed = add_field ([0x274C] @ lit '' Result'') (lit ''STOPPED OUT'') True embed
              in Inr embed)))
      | _ \<Rightarrow> Inl AttributeError)"

definition eod_embed :: "int \<Rightarrow> json \<Rightarrow> pyerr + embed" where
  "eod_embed now data =
     (case data of
        JObj d \<Rightarrow>
          (let direction = dict_get d (lit ''direction'') (JStr (lit ''UNKNOWN''))
           in and_then (py_float (dict_get d (lit ''price'') (JInt 0))) (\<lambda>price.
              and_then (py_float (dict_get d (lit ''pnl'') (JInt 0))) (\<lambda>pnl.
              let color = (if gt_zero pnl then green else red);
                  result = (if gt_zero pnl then lit ''PROFIT''
                            else if lt_zero pnl then lit ''LOSS'' else lit ''BREAKEVEN'');
                  embed = Embed ([0x1F305] @ lit '' EOD CLOSE (3:00 PM)'')
                            (Some (lit ''**'' @ py_str direction @ lit ''** position closed at end of day''))
                            color now;
                  embed = add_field ([0x1F4B0] @ lit '' Exit Price'') (format_fixed False True 2 price) True embed;
                  embed = add_field ([0x1F4CA] @ lit '' P&L'')
                            (format_fixed True False 2 pnl @ lit '' pts'') True embed;
                  embed = add_field ([0x1F4CB] @ lit '' Result'') result True embed
              in Inr embed)))
      | _ \<Rightarrow> Inl AttributeError)"

definition send_embed :: "int \<Rightarrow> pyerr + embed \<Rightarrow> system \<Rightarrow> (pyerr + unit) \<times> system" where
  "send_embed channel built st =
     (case built of
        Inl err \<Rightarrow> (Inl err, st)
      | Inr e \<Rightarrow> channel_send channel (Embedded e) st)"

definition send_entry_alert :: "int \<Rightarrow> json \<Rightarrow> system \<Rightarrow> (pyerr + unit) \<times> system" where
  "send_entry_alert channel data st = send_embed channel (entry_embed (utcnow st) data) st"

definition send_tp1_alert :: "int \<Rightarrow> json \<Rightarrow> system \<Rightarrow> (pyerr + unit) \<times> system" where
  "send_tp1_alert channel data st = send_embed channel (tp1_embed (utcnow st) data) st"

definition send_tp2_alert :: "int \<Rightarrow> json \<Rightarrow> system \<Rightarrow> (pyerr + unit) \<times> system" where
  "send_tp2_alert channel data st = send_embed channel (tp2_embed (utcnow st) data) st"

definition send_sl_alert :: "int \<Rightarrow> json \<Rightarrow> system \<Rightarrow> (pyerr + unit) \<times> system" where
  "send_sl_alert channel data st = send_embed channel (sl_embed (utcnow st) data) st"

definition send_eod_alert :: "int \<Rightarrow> json \<Rightarrow> system \<Rightarrow> (pyerr + unit) \<times> system" where
  "send_eod_alert channel data st = send_embed channel (eod_embed (utcnow st) data) st"

subsection \<open>The dispatcher\<close>

text \<open>
  \<open>send_alert\<close>: the result is what the coroutine does, \<open>Inl\<close> an exception that leaves
  it. Nothing in it or in a formatter catches an exception.
\<close>

definition generic_text :: "json \<Rightarrow> str" where
  "generic_text data = [0x1F4E2] @ lit '' Alert: '' @ json_dumps data"

definition send_alert :: "config \<Rightarrow> json \<Rightarrow> system \<Rightarrow> (pyerr + unit) \<times> system" where
  "send_alert cfg data st =
     (case get_channel st (DISCORD_CHANNEL_ID cfg) of
        None \<Rightarrow>
          (Inr (), py_print (lit ''Channel '' @ str_of_int (DISCORD_CHANNEL_ID cfg) @ lit '' not found!'') st)
      | Some channel \<Rightarrow>
          (case data of
             JObj d \<Rightarrow>
               (let alert_type = dict_get d (lit ''type'') (JStr (lit ''unknown''))
                in if alert_type = JStr (lit ''entry'') then send_entry_alert channel data st
                   else if alert_type = JStr (lit ''tp1'') then send_tp1_alert channel data st
                   else if alert_type = JStr (lit ''tp2'') then send_tp2_alert channel data st
                   else if alert_type = JStr (lit ''sl'') then send_sl_alert channel data st
                   else if alert_type = JStr (lit ''eod'') then send_eod_alert channel data st
                   else channel_send channel (Content (generic_text data)) st)
           | _ \<Rightarrow> (Inl AttributeError, st)))"

subsection \<open>The webhook\<close>

text \<open>
  A request as the handler sees it: the value of the header \<open>X-Webhook-Secret\<close>, if
  there is one, and what \<open>request.json\<close> does: it raises (\<open>Inl\<close>, with the text of the
  exception) when the body does not parse, or yields the parsed value. The response is
  the body given to \<open>jsonify\<close> and the status. Two statements of the \<open>try\<close> block can
  raise: \<open>request.json\<close>, and \<open>bot.loop.create_task\<close>, which raises before \<open>send_alert\<close>
  is called; \<open>json.dumps\<close> of a parsed body does not fail.
\<close>

record request =
  secret_header :: "str option"
  request_json :: "str + json"

definition webhook :: "config \<Rightarrow> request \<Rightarrow> system \<Rightarrow> (json \<times> nat) \<times> system" where
  "webhook cfg req st =
     (let secret = secret_header req
      in if secret \<noteq> Some (WEBHOOK_SECRET cfg)
         then ((JObj [(lit ''error'', JStr (lit ''Unauthorized''))], 401), st)
         else
           (case request_json req of
              Inr data \<Rightarrow>
                (let st = py_print (lit ''Received webhook: '' @ json_dumps data) st
                 in case loop_error st of
                      None \<Rightarrow> ((JObj [(lit ''status'', JStr (lit ''success''))], 200), create_task data st)
                    | Some e \<Rightarrow>
                        ((JObj [(lit ''error'', JStr e)], 500),
                         py_print (lit ''Error processing webhook: '' @ e) st))
            | Inl e \<Rightarrow>
                ((JObj [(lit ''error'', JStr e)], 500),
                 py_print (lit ''Error processing webhook: '' @ e) st)))"

subsection \<open>Reading a formatter's result\<close>

text \<open>What a formatter built, when it built something: a field's text, the colour.\<close>

definition built_field :: "str \<Rightarrow> pyerr + embed \<Rightarrow> str option" where
  "built_field n r = (case r of Inr e \<Rightarrow> field_text n e | Inl err \<Rightarrow> None)"

definition built_color :: "pyerr + embed \<Rightarrow> nat option" where
  "built_color r = (case r of Inr e \<Rightarrow> Some (color e) | Inl err \<Rightarrow> None)"

definition built_title :: "pyerr + embed \<Rightarrow> str option" where
  "built_title r = (case r of Inr e \<Rightarrow> Some (title e) | Inl err \<Rightarrow> None)"

subsection \<open>Vocabulary of the properties\<close>

text \<open>
  The alert type the dispatcher reads, the fields each formatter turns into floats, and
  whether such a field, as the payload has it or as its default, is one \<open>float\<close> takes.
\<close>

definition alert_type_of :: "(str \<times> json) list \<Rightarrow> json" where
  "alert_type_of d = dict_get d (lit ''type'') (JStr (lit ''unknown''))"

definition numeric_fields :: "json \<Rightarrow> str list" where
  "numeric_fields t =
     (if t = JStr (lit ''entry'') then [lit ''entry'', lit ''stop'', lit ''tp1'', lit ''tp2'']
      else if t = JStr (lit ''tp1'') \<or> t = JStr (lit ''tp2'') then [lit ''price'', lit ''profit'']
      else if t = JStr (lit ''sl'') then [lit ''price'', lit ''loss'']
      else if t = JStr (lit ''eod'') then [lit ''price'', lit ''pnl'']
      else [])"

definition coerces :: "(str \<times> json) list \<Rightarrow> str \<Rightarrow> bool" where
  "coerces d k = (case py_float (dict_get d k (JInt 0)) of Inr x \<Rightarrow> True | Inl e \<Rightarrow> False)"

text \<open>The defaults the formatters give to \<open>data.get\<close>, by key.\<close>

definition field_default :: "str \<Rightarrow> json" where
  "field_default k =
     (if k = lit ''direction'' then JStr (lit ''UNKNOWN'')
      else if k = lit ''timeframe'' then JStr (lit ''Unknown'')
      else if k = lit ''mode'' \<or> k = lit ''time'' \<or> k = lit ''day'' then JStr []
      else JInt 0)"

definition entry_keys :: "str list" where
  "entry_keys =
     [lit ''direction'', lit ''entry'', lit ''stop'', lit ''tp1'', lit ''tp2'',
      lit ''mode'', lit ''time'', lit ''day'', lit ''timeframe'']"

subsection \<open>Sample payloads\<close>

text \<open>
  A JSON number with a fraction part arrives as the float nearest to it:
  \<open>round_decimal s d x\<close> for \<open>(-1)\<^sup>s * d * 10\<^sup>x\<close>.
\<close>

definition entry_example :: "(str \<times> json) list" where
  "entry_example =
     [(lit ''type'', JStr (lit ''entry'')), (lit ''direction'', JStr (lit ''LONG'')),
      (lit ''entry'', JFloat (round_decimal False 450025 (- 2))), (lit ''stop'', JInt 4490),
      (lit ''tp1'', JStr (lit ''4513.5'')), (lit ''tp2'', JFloat (round_decimal False 452075 (- 2))),
      (lit ''mode'', JStr (lit ''Scalp'')), (lit ''mo_bias'', JStr (lit ''Above MO''))]"

definition short_entry_example :: "(str \<times> json) list" where
  "short_entry_example =
     [(lit ''type'', JStr (lit ''entry'')), (lit ''direction'', JStr (lit ''SHORT'')),
      (lit ''entry'', JInt 4490), (lit ''stop'', JFloat (round_decimal False 450025 (- 2))),
      (lit ''tp1'', JFloat (round_decimal False 44765 (- 1))),
      (lit ''tp2'', JFloat (round_decimal False 446975 (- 2)))]"

definition losing_tp_example :: "(str \<times> json) list" where
  "losing_tp_example =
     [(lit ''direction'', JStr (lit ''LONG'')),
      (lit ''price'', JFloat (round_decimal False 450025 (- 2))),
      (lit ''profit'', JFloat (round_decimal True 525 (- 2)))]"

definition eod_example :: "(str \<times> json) list" where
  "eod_example =
     [(lit ''type'', JStr (lit ''eod'')), (lit ''direction'', JStr (lit ''SHORT'')),
      (lit ''price'', JFloat (round_decimal False 44800 (- 1))),
      (lit ''pnl'', JFloat (round_decimal True 525 (- 2)))]"

definition winning_eod_example :: "(str \<times> json) list" where
  "winning_eod_example = [(lit ''type'', JStr (lit ''eod'')), (lit ''pnl'', JInt 3)]"

definition bad_entry_example :: "(str \<times> json) list" where
  "bad_entry_example = [(lit ''type'', JStr (lit ''entry'')), (lit ''entry'', JStr (lit ''abc''))]"

definition sample_config :: config where
  "sample_config = \<lparr>DISCORD_CHANNEL_ID = 42, WEBHOOK_SECRET = lit ''s3cret''\<rparr>"

definition sample_system :: system where
  "sample_system =
     \<lparr>channels = [42], accepts = (\<lambda>m. True), utcnow = 0, loop_error = None,
      sent = [], scheduled = [], printed = []\<rparr>"

definition offline_system :: system where
  "offline_system =
     \<lparr>channels = [], accepts = (\<lambda>m. True), utcnow = 0, loop_error = None,
      sent = [], scheduled = [], printed = []\<rparr>"

definition unknown_example :: "(str \<times> json) list" where
  "unknown_example = [(lit ''type'', JStr (lit ''ping'')), (lit ''n'', JInt 1)]"

definition unauthorized_request :: request where
  "unauthorized_request =
     \<lparr>secret_header = Some (lit ''guess''), request_json = Inr (JObj entry_example)\<rparr>"

definition malformed_request :: request where
  "malformed_request =
     \<lparr>secret_header = Some (lit ''s3cret''),
      request_json = Inl (lit ''400 Bad Request: Failed to decode JSON object'')\<rparr>"

section \<open>Properties\<close>

subsection \<open>Auxiliary facts\<close>

lemma lit_eq_iff [simp]: "lit a = lit b \<longleftrightarrow> a = b"
  by (simp add: lit_def inj_on_def)

lemma and_then_Inr [simp]: "and_then (Inr x) f = f x"
  by (simp add: and_then_def)

lemma and_then_Inl [simp]: "and_then (Inl e) f = Inl e"
  by (simp add: and_then_def)

lemma find_snoc:
  "find P (xs @ [x]) = (case find P xs of Some y \<Rightarrow> Some y | None \<Rightarrow> if P x then Some x else None)"
  by (induction xs) auto

lemma field_text_Embed [simp]: "field_text n (Embed t d c ts) = None"
  by (simp add: field_text_def Embed_def)

lemma field_text_add_field [simp]:
  "field_text n (add_field n' v i e) =
     (case field_text n e of Some x \<Rightarrow> Some x | None \<Rightarrow> if n' = n then Some v else None)"
  by (simp add: field_text_def add_field_def find_snoc split: option.splits)

lemma field_text_set_footer [simp]: "field_text n (set_footer t e) = field_text n e"
  by (simp add: field_text_def set_footer_def)

lemma color_Embed [simp]: "color (Embed t d c ts) = c"
  by (simp add: Embed_def)

lemma color_add_field [simp]: "color (add_field n v i e) = color e"
  by (simp add: add_field_def)

lemma color_set_footer [simp]: "color (set_footer t e) = color e"
  by (simp add: set_footer_def)

lemma built_field_Inr [simp]: "built_field n (Inr e) = field_text n e"
  by (simp add: built_field_def)

lemma built_color_Inr [simp]: "built_color (Inr e) = Some (color e)"
  by (simp add: built_color_def)

lemma green_not_red [simp]: "green \<noteq> red"
  by (simp add: green_def red_def)

subsection \<open>The webhook\<close>

text \<open>
  C6. A request to \<open>POST /webhook\<close> whose \<open>X-Webhook-Secret\<close> header is missing or is
  not the configured secret gets status 401 and the body \<open>{"error": "Unauthorized"}\<close>,
  and leaves the system as it was: no task is created for the dispatcher, nothing is
  sent, nothing is printed.
\<close>

theorem webhook_bad_secret:
  assumes "secret_header req \<noteq> Some (WEBHOOK_SECRET cfg)"
  shows "webhook cfg req st = ((JObj [(lit ''error'', JStr (lit ''Unauthorized''))], 401), st)"
  using assms by (simp add: webhook_def)

theorem webhook_bad_secret_witness:
  "secret_header unauthorized_request \<noteq> Some (WEBHOOK_SECRET sample_config)
   \<and> webhook sample_config unauthorized_request sample_system =
       ((JObj [(lit ''error'', JStr (lit ''Unauthorized''))], 401), sample_system)
   \<and> secret_header (unauthorized_request\<lparr>secret_header := None\<rparr>) \<noteq> Some (WEBHOOK_SECRET sample_config)
   \<and> webhook sample_config (unauthorized_request\<lparr>secret_header := None\<rparr>) sample_system =
       ((JObj [(lit ''error'', JStr (lit ''Unauthorized''))], 401), sample_system)"
proof -
  have h: "secret_header unauthorized_request \<noteq> Some (WEBHOOK_SECRET sample_config)"
    by (simp add: unauthorized_request_def sample_config_def)
  have n: "secret_header (unauthorized_request\<lparr>secret_header := None\<rparr>) \<noteq> Some (WEBHOOK_SECRET sample_config)"
    by simp
  from webhook_bad_secret [OF h] webhook_bad_secret [OF n] h n show ?thesis by blast
qed

text \<open>
  C7. A request with the right secret whose body does not parse as JSON (\<open>request.json\<close>
  raises, with the text \<open>e\<close>) gets status 500 and the body \<open>{"error": e}\<close>; no task is
  created for the dispatcher and nothing is sent.
\<close>

theorem webhook_bad_json:
  assumes "secret_header req = Some (WEBHOOK_SECRET cfg)"
    and "request_json req = Inl e"
  shows "fst (webhook cfg req st) = (JObj [(lit ''error'', JStr e)], 500)
       \<and> scheduled (snd (webhook cfg req st)) = scheduled st
       \<and> sent (snd (webhook cfg req st)) = sent st"
  using assms by (simp add: webhook_def py_print_def)

theorem webhook_bad_json_witness:
  "secret_header malformed_request = Some (WEBHOOK_SECRET sample_config)
   \<and> request_json malformed_request = Inl (lit ''400 Bad Request: Failed to decode JSON object'')
   \<and> fst (webhook sample_config malformed_request sample_system) =
       (JObj [(lit ''error'', JStr (lit ''400 Bad Request: Failed to decode JSON object''))], 500)
   \<and> scheduled (snd (webhook sample_config malformed_request sample_system)) = scheduled sample_system
   \<and> sent (snd (webhook sample_config malformed_request sample_system)) = sent sample_system"
proof -
  have h1: "secret_header malformed_request = Some (WEBHOOK_SECRET sample_config)"
    by (simp add: malformed_request_def sample_config_def)
  have h2: "request_json malformed_request = Inl (lit ''400 Bad Request: Failed to decode JSON object'')"
    by (simp add: malformed_request_def)
  from webhook_bad_json [OF h1 h2] h1 h2 show ?thesis by simp
qed

subsection \<open>Evaluation\<close>

text \<open>The unfoldings by which the simplifier computes with floats and texts on given inputs.\<close>

lemmas float_eval = round_decimal_def round_ratio_def round_scaled_def floor_log2_def
  round_half_even_def bit_length.simps float_of_int_def Let_def

lemmas format_eval = decimal.simps group3.simps zero_pad_def sign_text_def lit_def

lemmas parse_eval = float_of_str_def strip_def to_ascii_def is_space_def split_sign_def
  parse_number_def parse_exponent_def parse_inf_nan_def is_digit_def nat_of_digits_def
  to_lower_def

lemmas payload_eval = dict_get_def py_float_def

lemma entry_example_floats:
  "py_float (dict_get entry_example (lit ''entry'') (JInt 0)) = Inr (round_decimal False 450025 (- 2))"
  "py_float (dict_get entry_example (lit ''stop'') (JInt 0)) = Inr (round_decimal False 4490 0)"
  "py_float (dict_get entry_example (lit ''tp1'') (JInt 0)) = Inr (round_decimal False 45135 (- 1))"
  "py_float (dict_get entry_example (lit ''tp2'') (JInt 0)) = Inr (round_decimal False 452075 (- 2))"
  by (simp_all add: entry_example_def payload_eval parse_eval float_eval format_eval)

lemma short_entry_example_floats:
  "py_float (dict_get short_entry_example (lit ''entry'') (JInt 0)) = Inr (round_decimal False 4490 0)"
  "py_float (dict_get short_entry_example (lit ''stop'') (JInt 0)) = Inr (round_decimal False 450025 (- 2))"
  "py_float (dict_get short_entry_example (lit ''tp1'') (JInt 0)) = Inr (round_decimal False 44765 (- 1))"
  "py_float (dict_get short_entry_example (lit ''tp2'') (JInt 0)) = Inr (round_decimal False 446975 (- 2))"
  by (simp_all add: short_entry_example_def payload_eval float_eval)

lemma losing_tp_example_floats:
  "py_float (dict_get losing_tp_example (lit ''price'') (JInt 0)) = Inr (round_decimal False 450025 (- 2))"
  "py_float (dict_get losing_tp_example (lit ''profit'') (JInt 0)) = Inr (round_decimal True 525 (- 2))"
  by (simp_all add: losing_tp_example_def payload_eval)

lemma eod_example_floats:
  "py_float (dict_get eod_example (lit ''price'') (JInt 0)) = Inr (round_decimal False 44800 (- 1))"
  "py_float (dict_get eod_example (lit ''pnl'') (JInt 0)) = Inr (round_decimal True 525 (- 2))"
  by (simp_all add: eod_example_def payload_eval)

lemma winning_eod_example_floats:
  "py_float (dict_get winning_eod_example (lit ''price'') (JInt 0)) = Inr (round_decimal False 0 0)"
  "py_float (dict_get winning_eod_example (lit ''pnl'') (JInt 0)) = Inr (round_decimal False 3 0)"
  by (simp_all add: winning_eod_example_def payload_eval float_eval)

lemma empty_payload_floats: "py_float (dict_get [] k (JInt 0)) = Inr (round_decimal False 0 0)"
  by (simp add: payload_eval float_eval)

subsection \<open>The float model on known values\<close>

text \<open>
  Values that Python gives: \<open>0.1\<close> is \<open>7205759403792794 * 2\<^sup>-\<^sup>5\<^sup>6\<close>; \<open>float(2**53 + 1)\<close>
  rounds to the even neighbour \<open>2**53\<close>; \<open>float(2**1024 - 2**970)\<close> overflows;
  \<open>'%.2f' % 2.675\<close> is \<open>2.67\<close> and \<open>'%.2f' % 0.125\<close> is \<open>0.12\<close>;
  \<open>float(' 1_000.5e1 ')\<close> is \<open>10005.0\<close>, \<open>float('1__0')\<close> raises and
  \<open>float('-Infinity')\<close> is the negative infinity.
\<close>

lemma float_one_tenth: "round_decimal False 1 (- 1) = Finite False 7205759403792794 (- 56)"
  by (simp add: float_eval)

lemma float_of_int_ties_to_even: "float_of_int (2 ^ 53 + 1) = Inr (Finite False (2 ^ 52) 1)"
  by (simp add: float_eval)

lemma float_of_int_overflow: "float_of_int (2 ^ 1024 - 2 ^ 970) = Inl OverflowError"
  by (simp add: float_eval)

lemma format_fixed_half_even:
  "format_fixed False False 2 (round_decimal False 2675 (- 3)) = lit ''2.67''"
  "format_fixed False False 2 (round_decimal False 125 (- 3)) = lit ''0.12''"
  by (simp_all add: float_eval format_eval)

lemma float_of_str_examples:
  "float_of_str (lit '' 1_000.5e1 '') = Inr (round_decimal False 10005 0)"
  "float_of_str (lit ''1__0'') = Inl ValueError"
  "float_of_str (lit ''-Infinity'') = Inr (Infinity True)"
  by (simp_all add: parse_eval float_eval format_eval)

lemma float_of_str_fullwidth_digits:
  "float_of_str [0xFF11, 0xFF12] = Inr (round_decimal False 12 0)"
  "py_float (JStr [0x0661, 0x0662, 0x002E, 0x0665]) = Inr (round_decimal False 125 (- 1))"
  by (simp_all add: py_float_def parse_eval decimal_value_def digit_zeros_def unicode_space_def
      float_eval format_eval)

subsection \<open>The absolute value\<close>

text \<open>
  \<open>abs\<close> on floats clears the sign and keeps the magnitude, so that \<open>abs(x - y)\<close> does
  not depend on the order of \<open>x\<close> and \<open>y\<close>.
\<close>

lemma float_abs_units: "float_units (float_abs x) = map_option abs (float_units x)"
  by (cases x) (simp_all add: float_units_def abs_mult)

lemma float_abs_not_negative: "\<not> lt_zero (float_abs x)"
  by (cases x) simp_all

lemma float_abs_round_ratio: "float_abs (round_ratio s p q) = round_ratio False p q"
  by (simp add: round_ratio_def Let_def)

lemma float_abs_round_scaled: "float_abs (round_scaled s n e) = round_scaled False n e"
  by (simp add: round_scaled_def float_abs_round_ratio)

lemma float_abs_sub_commute: "float_abs (float_sub x y) = float_abs (float_sub y x)"
proof (cases x)
  case x: (Finite s m e)
  show ?thesis
  proof (cases y)
    case y: (Finite t n f)
    define a where "a = (if s then - 1 else 1) * int (m * 2 ^ nat (e - min e f))"
    define b where "b = (if t then - 1 else 1) * int (n * 2 ^ nat (f - min e f))"
    have xy: "float_sub x y =
        (if a - b = 0 then Finite (s \<and> \<not> t) 0 (- 1074)
         else round_scaled (a - b < 0) (nat \<bar>a - b\<bar>) (min e f))"
      by (simp add: x y a_def b_def Let_def)
    have yx: "float_sub y x =
        (if b - a = 0 then Finite (t \<and> \<not> s) 0 (- 1074)
         else round_scaled (b - a < 0) (nat \<bar>b - a\<bar>) (min e f))"
      by (simp add: x y a_def b_def Let_def min.commute)
    have "\<bar>b - a\<bar> = \<bar>a - b\<bar>" by simp
    then show ?thesis
      unfolding xy yx by (cases "a = b") (simp_all add: float_abs_round_scaled)
  qed (simp_all add: x)
next
  case x: (Infinity s)
  show ?thesis by (cases y) (auto simp: x)
next
  case NaN
  then show ?thesis by (cases y) simp_all
qed

subsection \<open>Exact differences\<close>

text \<open>
  \<open>x - y\<close> is the exact difference rounded once, and the rounding keeps every number that is
  a float: when the exact difference of two finite floats needs no more than 53 bits above
  the smaller of their two exponents, as for two prices of the same magnitude, \<open>x - y\<close>
  is that difference and \<open>abs(x - y)\<close> is its magnitude.
\<close>

lemma bit_length_bounds: "0 < n \<Longrightarrow> 2 ^ (bit_length n - 1) \<le> n \<and> n < 2 ^ bit_length n"
proof (induction n rule: bit_length.induct)
  case (1 n)
  show ?case
  proof (cases "n div 2 = 0")
    case True
    with 1 have "n = 1" by (simp add: div_eq_0_iff) 
    then show ?thesis by (simp add: bit_length.simps)
  next
    case False
    then have pos: "0 < n div 2" by simp
    from 1 pos have ih: "2 ^ (bit_length (n div 2) - 1) \<le> n div 2 \<and> n div 2 < 2 ^ bit_length (n div 2)"
      by simp
    have bl: "bit_length n = Suc (bit_length (n div 2))"
      using 1 by (simp add: bit_length.simps [of n])
    have blpos: "0 < bit_length (n div 2)"
      using pos by (simp add: bit_length.simps [of "n div 2"])
    then obtain k where k: "bit_length (n div 2) = Suc k" by (cases "bit_length (n div 2)") simp_all
    from ih have "2 * 2 ^ k \<le> 2 * (n div 2)" by (simp add: k)
    also have "\<dots> \<le> n" by simp
    finally have lo: "2 ^ (bit_length n - 1) \<le> n" by (simp add: bl k)
    from ih have "n div 2 + 1 \<le> 2 ^ Suc k" by (simp add: k)
    then have "2 * (n div 2) + 2 \<le> 2 * 2 ^ Suc k" by simp
    moreover have "n < 2 * (n div 2) + 2" by presburger
    ultimately have hi: "n < 2 ^ bit_length n" by (simp add: bl k)
    from lo hi show ?thesis ..
  qed
qed

lemma bit_length_unique: "2 ^ k \<le> n \<Longrightarrow> n < 2 ^ Suc k \<Longrightarrow> bit_length n = Suc k"
proof -
  assume lo: "2 ^ k \<le> n" and hi: "n < 2 ^ Suc k"
  then have pos: "0 < n" by (metis less_le_trans zero_less_numeral zero_less_power)
  from bit_length_bounds [OF pos] have b: "2 ^ (bit_length n - 1) \<le> n" "n < 2 ^ bit_length n" by simp_all
  have "(2::nat) ^ k < 2 ^ bit_length n" using lo b(2) by (rule le_less_trans)
  then have 1: "k < bit_length n" by simp
  have "(2::nat) ^ (bit_length n - 1) < 2 ^ Suc k" using b(1) hi by (rule le_less_trans)
  then have 2: "bit_length n - 1 < Suc k" by (simp del: power_Suc)
  from 1 2 show ?thesis by simp
qed

lemma bit_length_shift: "0 < n \<Longrightarrow> bit_length (n * 2 ^ k) = bit_length n + k"
proof -
  assume pos: "0 < n"
  from bit_length_bounds [OF pos] have b: "2 ^ (bit_length n - 1) \<le> n" "n < 2 ^ bit_length n" by simp_all
  have blpos: "0 < bit_length n" using pos by (simp add: bit_length.simps [of n])
  then obtain j where j: "bit_length n = Suc j" by (cases "bit_length n") simp_all
  have "2 ^ j * 2 ^ k \<le> n * 2 ^ k" using b(1) by (simp add: j)
  then have lo: "2 ^ (j + k) \<le> n * 2 ^ k" by (simp add: power_add)
  have "n * 2 ^ k < 2 ^ Suc j * 2 ^ k" using b(2) by (simp add: j)
  then have hi: "n * 2 ^ k < 2 ^ Suc (j + k)" by (simp add: power_add)
  from bit_length_unique [OF lo hi] show ?thesis by (simp add: j)
qed

lemma bit_length_pow2: "bit_length (2 ^ k) = Suc k"
  by (rule bit_length_unique) simp_all


lemma bit_length_pos: "0 < n \<Longrightarrow> 0 < bit_length n"
  by (simp add: bit_length.simps [of n])

lemma floor_log2_whole:
  assumes "0 < n"
  shows "floor_log2 (n * 2 ^ k) 1 = int (bit_length n) - 1 + int k"
proof -
  from bit_length_pos [OF assms] obtain j where j: "bit_length n = Suc j"
    by (cases "bit_length n") simp_all
  from bit_length_bounds [OF assms] have lo: "2 ^ j \<le> n" by (simp add: j)
  have bl1: "bit_length (Suc 0) = Suc 0" using bit_length_pow2 [of 0] by simp
  have "2 ^ j * 2 ^ k \<le> n * 2 ^ k" using lo by simp
  then have le: "(2::nat) ^ (j + k) \<le> n * 2 ^ k" by (simp add: power_add)
  have b: "int (bit_length (n * 2 ^ k)) - int (bit_length 1) = int (j + k)"
    using bl1 by (simp add: bit_length_shift [OF assms] j)
  show ?thesis
    unfolding floor_log2_def b Let_def using le by (simp add: j nat_int_add)
qed

lemma floor_log2_fraction:
  assumes "0 < n"
  shows "floor_log2 n (2 ^ k) = int (bit_length n) - 1 - int k"
proof -
  from bit_length_pos [OF assms] obtain j where j: "bit_length n = Suc j"
    by (cases "bit_length n") simp_all
  from bit_length_bounds [OF assms] have lo: "2 ^ j \<le> n" by (simp add: j)
  have b: "int (bit_length n) - int (bit_length (2 ^ k)) = int j - int k"
    by (simp add: bit_length_pow2 j)
  show ?thesis
  proof (cases "k \<le> j")
    case True
    then have "(2::nat) ^ k * 2 ^ nat (int j - int k) = 2 ^ j"
      by (simp add: power_add [symmetric] nat_diff_distrib')
    with lo True show ?thesis
      unfolding floor_log2_def b Let_def by (simp add: j)
  next
    case False
    then have kj: "j < k" by simp
    then have "(2::nat) ^ k = 2 ^ j * 2 ^ nat (- (int j - int k))"
      by (simp add: power_add [symmetric] nat_diff_distrib')
    also have "\<dots> \<le> n * 2 ^ nat (- (int j - int k))" using lo by simp
    finally have "(2::nat) ^ k \<le> n * 2 ^ nat (- (int j - int k))" .
    with kj show ?thesis
      unfolding floor_log2_def b Let_def by (simp add: j)
  qed
qed

lemma round_half_even_exact: "0 < d \<Longrightarrow> round_half_even (k * d) d = k"
  by (simp add: round_half_even_def)


lemma round_ratio_exact:
  assumes "0 < p" and "x = max (floor_log2 p q - 52) (- 1074)"
    and "(if 0 \<le> x then round_half_even p (q * 2 ^ nat x)
          else round_half_even (p * 2 ^ nat (- x)) q) = m"
    and "m < 2 ^ 53" and "x \<le> 971"
  shows "round_ratio s p q = Finite s m x"
proof -
  from assms(4) have "m \<noteq> 2 ^ 53" by simp
  with assms(1,5) assms(2) [symmetric] assms(3) show ?thesis
    by (simp add: round_ratio_def Let_def)
qed

lemma round_scaled_exact:
  assumes n: "0 < n" "n < 2 ^ 53" and e: "- 1074 \<le> e" "e \<le> 971"
  shows "\<exists>m x. round_scaled s n e = Finite s m x \<and> - 1074 \<le> x \<and> x \<le> e \<and> m = n * 2 ^ nat (e - x)"
proof -
  define j where "j = bit_length n"
  from bit_length_bounds [OF n(1)] have b: "2 ^ (j - 1) \<le> n" "n < 2 ^ j" by (simp_all add: j_def)
  have jpos: "0 < j" unfolding j_def by (rule bit_length_pos [OF n(1)])
  have "(2::nat) ^ (j - 1) < 2 ^ 53" using b(1) n(2) by (rule le_less_trans)
  then have "j - 1 < 53" by (rule power_less_imp_less_exp [rotated]) simp
  with jpos have j53: "j \<le> 53" by simp
  define x where "x = max (int j - 1 + e - 52) (- 1074)"
  have xlo: "- 1074 \<le> x" by (simp add: x_def)
  have xe: "x \<le> e" using j53 e by (simp add: x_def)
  define t where "t = nat (e - x)"
  have "j + t \<le> 53" using j53 xe by (simp add: t_def x_def)
  then have le53: "(2::nat) ^ (j + t) \<le> 2 ^ 53" by (rule power_increasing) simp
  have "n * 2 ^ t < 2 ^ j * 2 ^ t" using b(2) by simp
  also have "\<dots> = 2 ^ (j + t)" by (simp only: power_add)
  finally have m53: "n * 2 ^ t < 2 ^ 53" using le53 by (rule less_le_trans)
  have x971: "x \<le> 971" using xe e by simp
  have "round_scaled s n e = Finite s (n * 2 ^ t) x"
  proof (cases "0 \<le> e")
    case True
    have fl: "floor_log2 (n * 2 ^ nat e) 1 = int j - 1 + e"
      using floor_log2_whole [OF n(1), of "nat e"] True by (simp add: j_def)
    have p: "0 < n * 2 ^ nat e" using n(1) by simp
    have m: "(if 0 \<le> x then round_half_even (n * 2 ^ nat e) (1 * 2 ^ nat x)
          else round_half_even (n * 2 ^ nat e * 2 ^ nat (- x)) 1) = n * 2 ^ t"
    proof (cases "0 \<le> x")
      case x0: True
      then have "nat e = t + nat x" using xe by (simp add: t_def)
      then have eq: "n * 2 ^ nat e = (n * 2 ^ t) * 2 ^ nat x" by (simp add: power_add)
      have "round_half_even (n * 2 ^ nat e) (1 * 2 ^ nat x) = n * 2 ^ t"
        unfolding eq mult_1 by (rule round_half_even_exact) simp
      then show ?thesis by (simp only: x0 if_True)
    next
      case x0: False
      then have "t = nat e + nat (- x)" using True by (simp add: t_def)
      then have eq: "n * 2 ^ nat e * 2 ^ nat (- x) = (n * 2 ^ t) * 1" by (simp add: power_add)
      have "round_half_even (n * 2 ^ nat e * 2 ^ nat (- x)) 1 = n * 2 ^ t"
        unfolding eq by (rule round_half_even_exact) simp
      then show ?thesis by (simp only: x0 if_False)
    qed
    have "round_ratio s (n * 2 ^ nat e) 1 = Finite s (n * 2 ^ t) x"
      by (rule round_ratio_exact [OF p _ m m53 x971]) (simp only: fl x_def)
    with True show ?thesis by (simp add: round_scaled_def)
  next
    case False
    have fl: "floor_log2 n (2 ^ nat (- e)) = int j - 1 + e"
      using floor_log2_fraction [OF n(1), of "nat (- e)"] False by (simp add: j_def)
    from False xe have x0: "\<not> 0 \<le> x" by simp
    have "nat (- x) = t + nat (- e)" using False xe by (simp add: t_def)
    then have eq: "n * 2 ^ nat (- x) = (n * 2 ^ t) * 2 ^ nat (- e)" by (simp add: power_add)
    have "round_half_even (n * 2 ^ nat (- x)) (2 ^ nat (- e)) = n * 2 ^ t"
      unfolding eq by (rule round_half_even_exact) simp
    then have m: "(if 0 \<le> x then round_half_even n (2 ^ nat (- e) * 2 ^ nat x)
          else round_half_even (n * 2 ^ nat (- x)) (2 ^ nat (- e))) = n * 2 ^ t"
      by (simp only: x0 if_False)
    have "round_ratio s n (2 ^ nat (- e)) = Finite s (n * 2 ^ t) x"
      by (rule round_ratio_exact [OF n(1) _ m m53 x971]) (simp only: fl x_def)
    with False show ?thesis by (simp add: round_scaled_def)
  qed
  with xlo xe show ?thesis by (simp add: t_def)
qed

lemma round_scaled_units:
  assumes "0 < n" "n < 2 ^ 53" "- 1074 \<le> e" "e \<le> 971"
  shows "float_units (round_scaled s n e) = Some ((if s then - 1 else 1) * int n * 2 ^ nat (e + 1074))"
proof -
  from round_scaled_exact [OF assms, of s] obtain m x where
    r: "round_scaled s n e = Finite s m x" and x: "- 1074 \<le> x" "x \<le> e" and m: "m = n * 2 ^ nat (e - x)"
    by blast
  have "nat (e - x) + nat (x + 1074) = nat (e + 1074)" using x by simp
  then have "(2::int) ^ nat (e - x) * 2 ^ nat (x + 1074) = 2 ^ nat (e + 1074)"
    by (simp only: power_add [symmetric])
  then have "int n * 2 ^ nat (e - x) * 2 ^ nat (x + 1074) = int n * 2 ^ nat (e + 1074)"
    by (simp only: mult.assoc)
  then show ?thesis by (simp add: r m float_units_def)
qed


lemma float_units_aligned:
  assumes "g \<le> e" and "- 1074 \<le> g"
  shows "float_units (Finite s m e) =
      Some ((if s then - 1 else 1) * int (m * 2 ^ nat (e - g)) * 2 ^ nat (g + 1074))"
proof -
  have "nat (e + 1074) = nat (e - g) + nat (g + 1074)" using assms by simp
  then show ?thesis by (simp add: float_units_def power_add)
qed

lemma float_sub_exact:
  assumes e: "- 1074 \<le> e" "e \<le> 971" and f: "- 1074 \<le> f" "f \<le> 971"
    and a: "float_units (Finite s m e) = Some a" and b: "float_units (Finite t n f) = Some b"
    and small: "\<bar>a - b\<bar> < 2 ^ (53 + nat (min e f + 1074))"
  shows "float_units (float_sub (Finite s m e) (Finite t n f)) = Some (a - b)"
proof -
  define g where "g = min e f"
  define G where "G = nat (g + 1074)"
  define A where "A = (if s then - 1 else 1) * int (m * 2 ^ nat (e - g))"
  define B where "B = (if t then - 1 else 1) * int (n * 2 ^ nat (f - g))"
  define D where "D = A - B"
  have g: "- 1074 \<le> g" "g \<le> 971" "g \<le> e" "g \<le> f" using e f by (simp_all add: g_def)
  have a': "a = A * 2 ^ G"
    using a float_units_aligned [OF g(3) g(1), of s m] by (simp add: A_def G_def)
  have b': "b = B * 2 ^ G"
    using b float_units_aligned [OF g(4) g(1), of t n] by (simp add: B_def G_def)
  have ab: "a - b = D * 2 ^ G" by (simp add: a' b' D_def left_diff_distrib)
  have "\<bar>D\<bar> * 2 ^ G = \<bar>a - b\<bar>" by (simp add: ab abs_mult)
  also have "\<dots> < 2 ^ (53 + G)" using small by (simp only: g_def G_def)
  also have "\<dots> = 2 ^ 53 * (2::int) ^ G" by (simp only: power_add)
  finally have "\<bar>D\<bar> * 2 ^ G < 2 ^ 53 * (2::int) ^ G" .
  then have D53: "\<bar>D\<bar> < 2 ^ 53" by (simp only: mult_less_cancel_right) simp
  have sub: "float_sub (Finite s m e) (Finite t n f) =
      (if D = 0 then Finite (s \<and> \<not> t) 0 (- 1074) else round_scaled (D < 0) (nat \<bar>D\<bar>) g)"
    by (simp add: Let_def g_def A_def B_def D_def)
  show ?thesis
  proof (cases "D = 0")
    case True
    then show ?thesis unfolding sub by (simp add: ab float_units_def)
  next
    case False
    then have pos: "0 < nat \<bar>D\<bar>" by simp
    have lt: "nat \<bar>D\<bar> < 2 ^ 53" using D53 by (simp add: nat_less_iff)
    have "(if D < 0 then - 1 else 1) * int (nat \<bar>D\<bar>) = D" by simp
    then have "(if D < 0 then - 1 else 1) * int (nat \<bar>D\<bar>) * 2 ^ nat (g + 1074) = a - b"
      by (simp only: ab G_def)
    with round_scaled_units [OF pos lt g(1) g(2), of "D < 0"] False show ?thesis
      by (simp only: sub if_False)
  qed
qed

lemma float_abs_sub_exact:
  assumes "- 1074 \<le> e" "e \<le> 971" and "- 1074 \<le> f" "f \<le> 971"
    and "float_units (Finite s m e) = Some a" and "float_units (Finite t n f) = Some b"
    and "\<bar>a - b\<bar> < 2 ^ (53 + nat (min e f + 1074))"
  shows "float_units (float_abs (float_sub (Finite s m e) (Finite t n f))) = Some \<bar>a - b\<bar>"
  using float_sub_exact [OF assms] by (simp add: float_abs_units)

subsection \<open>The entry formatter\<close>

text \<open>
  C3. For an entry payload whose four numeric fields \<open>float\<close> accepts, the texts of the
  fields Stop Loss, Risk, TP1 and TP2 carry \<open>risk = abs(entry - stop)\<close>,
  \<open>tp1_dist = abs(tp1 - entry)\<close> and \<open>tp2_dist = abs(tp2 - entry)\<close>, each to two decimals:
  signed after the stop and the targets, plain in Risk. Each of the three is an absolute
  value: it has the magnitude of the difference, it is not negative, and it is the same
  for a long trade and for the short trade with the two prices exchanged.
\<close>

theorem entry_distances:
  assumes "py_float (dict_get d (lit ''entry'') (JInt 0)) = Inr entry"
    and "py_float (dict_get d (lit ''stop'') (JInt 0)) = Inr stop"
    and "py_float (dict_get d (lit ''tp1'') (JInt 0)) = Inr tp1"
    and "py_float (dict_get d (lit ''tp2'') (JInt 0)) = Inr tp2"
  shows "built_field ([0x1F6D1] @ lit '' Stop Loss'') (entry_embed now (JObj d)) =
           Some (format_fixed False True 2 stop @ [10] @ lit ''(''
                 @ format_fixed True False 2 (float_abs (float_sub entry stop)) @ lit '' pts)'')
       \<and> built_field ([0x1F4CA] @ lit '' Risk'') (entry_embed now (JObj d)) =
           Some (lit ''**'' @ format_fixed False False 2 (float_abs (float_sub entry stop)) @ lit ''** pts'')
       \<and> built_field ([0x1F3AF] @ lit '' TP1 (1.3R)'') (entry_embed now (JObj d)) =
           Some (format_fixed False True 2 tp1 @ [10] @ lit ''(''
                 @ format_fixed True False 2 (float_abs (float_sub tp1 entry)) @ lit '' pts)'')
       \<and> built_field ([0x1F3AF] @ lit '' TP2 (2.0R)'') (entry_embed now (JObj d)) =
           Some (format_fixed False True 2 tp2 @ [10] @ lit ''(''
                 @ format_fixed True False 2 (float_abs (float_sub tp2 entry)) @ lit '' pts)'')
       \<and> float_units (float_abs (float_sub entry stop)) = map_option abs (float_units (float_sub entry stop))
       \<and> float_units (float_abs (float_sub tp1 entry)) = map_option abs (float_units (float_sub tp1 entry))
       \<and> float_units (float_abs (float_sub tp2 entry)) = map_option abs (float_units (float_sub tp2 entry))
       \<and> \<not> lt_zero (float_abs (float_sub entry stop))
       \<and> \<not> lt_zero (float_abs (float_sub tp1 entry))
       \<and> \<not> lt_zero (float_abs (float_sub tp2 entry))
       \<and> float_abs (float_sub entry stop) = float_abs (float_sub stop entry)
       \<and> float_abs (float_sub tp1 entry) = float_abs (float_sub entry tp1)
       \<and> float_abs (float_sub tp2 entry) = float_abs (float_sub entry tp2)"
proof -
  have "built_field ([0x1F6D1] @ lit '' Stop Loss'') (entry_embed now (JObj d)) =
           Some (format_fixed False True 2 stop @ [10] @ lit ''(''
                 @ format_fixed True False 2 (float_abs (float_sub entry stop)) @ lit '' pts)'')
       \<and> built_field ([0x1F4CA] @ lit '' Risk'') (entry_embed now (JObj d)) =
           Some (lit ''**'' @ format_fixed False False 2 (float_abs (float_sub entry stop)) @ lit ''** pts'')
       \<and> built_field ([0x1F3AF] @ lit '' TP1 (1.3R)'') (entry_embed now (JObj d)) =
           Some (format_fixed False True 2 tp1 @ [10] @ lit ''(''
                 @ format_fixed True False 2 (float_abs (float_sub tp1 entry)) @ lit '' pts)'')
       \<and> built_field ([0x1F3AF] @ lit '' TP2 (2.0R)'') (entry_embed now (JObj d)) =
           Some (format_fixed False True 2 tp2 @ [10] @ lit ''(''
                 @ format_fixed True False 2 (float_abs (float_sub tp2 entry)) @ lit '' pts)'')"
    using assms by (simp add: entry_embed_def Let_def split: option.splits)
  then show ?thesis
    using float_abs_units float_abs_not_negative
      float_abs_sub_commute [of entry stop] float_abs_sub_commute [of tp1 entry]
      float_abs_sub_commute [of tp2 entry]
    by blast
qed

theorem entry_distances_witness:
  "py_float (dict_get entry_example (lit ''entry'') (JInt 0)) = Inr (round_decimal False 450025 (- 2))
   \<and> py_float (dict_get entry_example (lit ''stop'') (JInt 0)) = Inr (round_decimal False 4490 0)
   \<and> py_float (dict_get entry_example (lit ''tp1'') (JInt 0)) = Inr (round_decimal False 45135 (- 1))
   \<and> py_float (dict_get entry_example (lit ''tp2'') (JInt 0)) = Inr (round_decimal False 452075 (- 2))
   \<and> built_field ([0x1F6D1] @ lit '' Stop Loss'') (entry_embed 0 (JObj entry_example)) =
        Some (lit ''4,490.00'' @ [10] @ lit ''('' @ lit ''+10.25'' @ lit '' pts)'')
   \<and> built_field ([0x1F4CA] @ lit '' Risk'') (entry_embed 0 (JObj entry_example)) =
        Some (lit ''**'' @ lit ''10.25'' @ lit ''** pts'')
   \<and> built_field ([0x1F3AF] @ lit '' TP1 (1.3R)'') (entry_embed 0 (JObj entry_example)) =
        Some (lit ''4,513.50'' @ [10] @ lit ''('' @ lit ''+13.25'' @ lit '' pts)'')
   \<and> built_field ([0x1F3AF] @ lit '' TP2 (2.0R)'') (entry_embed 0 (JObj entry_example)) =
        Some (lit ''4,520.75'' @ [10] @ lit ''('' @ lit ''+20.50'' @ lit '' pts)'')
   \<and> py_float (dict_get short_entry_example (lit ''entry'') (JInt 0)) = Inr (round_decimal False 4490 0)
   \<and> py_float (dict_get short_entry_example (lit ''stop'') (JInt 0)) = Inr (round_decimal False 450025 (- 2))
   \<and> py_float (dict_get short_entry_example (lit ''tp1'') (JInt 0)) = Inr (round_decimal False 44765 (- 1))
   \<and> py_float (dict_get short_entry_example (lit ''tp2'') (JInt 0)) = Inr (round_decimal False 446975 (- 2))
   \<and> lt_zero (float_sub (round_decimal False 4490 0) (round_decimal False 450025 (- 2)))
   \<and> lt_zero (float_sub (round_decimal False 44765 (- 1)) (round_decimal False 4490 0))
   \<and> lt_zero (float_sub (round_decimal False 446975 (- 2)) (round_decimal False 4490 0))
   \<and> format_fixed True False 2 (float_sub (round_decimal False 4490 0) (round_decimal False 450025 (- 2)))
        = lit ''-10.25''
   \<and> built_field ([0x1F6D1] @ lit '' Stop Loss'') (entry_embed 0 (JObj short_entry_example)) =
        Some (lit ''4,500.25'' @ [10] @ lit ''('' @ lit ''+10.25'' @ lit '' pts)'')
   \<and> built_field ([0x1F4CA] @ lit '' Risk'') (entry_embed 0 (JObj short_entry_example)) =
        Some (lit ''**'' @ lit ''10.25'' @ lit ''** pts'')
   \<and> built_field ([0x1F3AF] @ lit '' TP1 (1.3R)'') (entry_embed 0 (JObj short_entry_example)) =
        Some (lit ''4,476.50'' @ [10] @ lit ''('' @ lit ''+13.50'' @ lit '' pts)'')
   \<and> built_field ([0x1F3AF] @ lit '' TP2 (2.0R)'') (entry_embed 0 (JObj short_entry_example)) =
        Some (lit ''4,469.75'' @ [10] @ lit ''('' @ lit ''+20.25'' @ lit '' pts)'')
   \<and> float_units (float_abs (float_sub (round_decimal False 4490 0) (round_decimal False 450025 (- 2))))
        = Some (41 * 2 ^ 1072)
   \<and> float_units (float_sub (round_decimal False 4490 0) (round_decimal False 450025 (- 2)))
        = Some (- (41 * 2 ^ 1072))
   \<and> float_units (round_decimal False 4490 0) = Some (17960 * 2 ^ 1072)
   \<and> float_units (round_decimal False 450025 (- 2)) = Some (18001 * 2 ^ 1072)"
proof -
  have f1: "format_fixed False True 2 (round_decimal False 4490 0) = lit ''4,490.00''"
    by (simp add: float_eval format_eval)
  have f2: "format_fixed True False 2 (float_abs (float_sub (round_decimal False 450025 (- 2)) (round_decimal False 4490 0))) = lit ''+10.25''"
    by (simp add: float_eval format_eval)
  have f3: "format_fixed False False 2 (float_abs (float_sub (round_decimal False 450025 (- 2)) (round_decimal False 4490 0))) = lit ''10.25''"
    by (simp add: float_eval format_eval)
  have f4: "format_fixed False True 2 (round_decimal False 45135 (- 1)) = lit ''4,513.50''"
    by (simp add: float_eval format_eval)
  have f5: "format_fixed True False 2 (float_abs (float_sub (round_decimal False 45135 (- 1)) (round_decimal False 450025 (- 2)))) = lit ''+13.25''"
    by (simp add: float_eval format_eval)
  have f6: "format_fixed False True 2 (round_decimal False 452075 (- 2)) = lit ''4,520.75''"
    by (simp add: float_eval format_eval)
  have f7: "format_fixed True False 2 (float_abs (float_sub (round_decimal False 452075 (- 2)) (round_decimal False 450025 (- 2)))) = lit ''+20.50''"
    by (simp add: float_eval format_eval)
  from entry_distances [OF entry_example_floats, of 0] have long:
    "built_field ([0x1F6D1] @ lit '' Stop Loss'') (entry_embed 0 (JObj entry_example)) =
        Some (lit ''4,490.00'' @ [10] @ lit ''('' @ lit ''+10.25'' @ lit '' pts)'')
   \<and> built_field ([0x1F4CA] @ lit '' Risk'') (entry_embed 0 (JObj entry_example)) =
        Some (lit ''**'' @ lit ''10.25'' @ lit ''** pts'')
   \<and> built_field ([0x1F3AF] @ lit '' TP1 (1.3R)'') (entry_embed 0 (JObj entry_example)) =
        Some (lit ''4,513.50'' @ [10] @ lit ''('' @ lit ''+13.25'' @ lit '' pts)'')
   \<and> built_field ([0x1F3AF] @ lit '' TP2 (2.0R)'') (entry_embed 0 (JObj entry_example)) =
        Some (lit ''4,520.75'' @ [10] @ lit ''('' @ lit ''+20.50'' @ lit '' pts)'')"
    by (simp only: f1 f2 f3 f4 f5 f6 f7)
  have n1: "lt_zero (float_sub (round_decimal False 4490 0) (round_decimal False 450025 (- 2)))"
    by (simp add: float_eval)
  have n2: "lt_zero (float_sub (round_decimal False 44765 (- 1)) (round_decimal False 4490 0))"
    by (simp add: float_eval)
  have n3: "lt_zero (float_sub (round_decimal False 446975 (- 2)) (round_decimal False 4490 0))"
    by (simp add: float_eval)
  have raw: "format_fixed True False 2 (float_sub (round_decimal False 4490 0) (round_decimal False 450025 (- 2)))
        = lit ''-10.25''"
    by (simp add: float_eval format_eval)
  have g1: "format_fixed False True 2 (round_decimal False 450025 (- 2)) = lit ''4,500.25''"
    by (simp add: float_eval format_eval)
  have g2: "format_fixed True False 2 (float_abs (float_sub (round_decimal False 4490 0) (round_decimal False 450025 (- 2)))) = lit ''+10.25''"
    by (simp add: float_eval format_eval)
  have g3: "format_fixed False False 2 (float_abs (float_sub (round_decimal False 4490 0) (round_decimal False 450025 (- 2)))) = lit ''10.25''"
    by (simp add: float_eval format_eval)
  have g4: "format_fixed False True 2 (round_decimal False 44765 (- 1)) = lit ''4,476.50''"
    by (simp add: float_eval format_eval)
  have g5: "format_fixed True False 2 (float_abs (float_sub (round_decimal False 44765 (- 1)) (round_decimal False 4490 0))) = lit ''+13.50''"
    by (simp add: float_eval format_eval)
  have g6: "format_fixed False True 2 (round_decimal False 446975 (- 2)) = lit ''4,469.75''"
    by (simp add: float_eval format_eval)
  have g7: "format_fixed True False 2 (float_abs (float_sub (round_decimal False 446975 (- 2)) (round_decimal False 4490 0))) = lit ''+20.25''"
    by (simp add: float_eval format_eval)
  have u: "float_units (float_sub (round_decimal False 4490 0) (round_decimal False 450025 (- 2)))
        = Some (- (41 * 2 ^ 1072))"
    by (simp add: float_eval float_units_def)
  from entry_distances [OF short_entry_example_floats, of 0] have short:
    "built_field ([0x1F6D1] @ lit '' Stop Loss'') (entry_embed 0 (JObj short_entry_example)) =
        Some (lit ''4,500.25'' @ [10] @ lit ''('' @ lit ''+10.25'' @ lit '' pts)'')
   \<and> built_field ([0x1F4CA] @ lit '' Risk'') (entry_embed 0 (JObj short_entry_example)) =
        Some (lit ''**'' @ lit ''10.25'' @ lit ''** pts'')
   \<and> built_field ([0x1F3AF] @ lit '' TP1 (1.3R)'') (entry_embed 0 (JObj short_entry_example)) =
        Some (lit ''4,476.50'' @ [10] @ lit ''('' @ lit ''+13.50'' @ lit '' pts)'')
   \<and> built_field ([0x1F3AF] @ lit '' TP2 (2.0R)'') (entry_embed 0 (JObj short_entry_example)) =
        Some (lit ''4,469.75'' @ [10] @ lit ''('' @ lit ''+20.25'' @ lit '' pts)'')"
    by (simp only: g1 g2 g3 g4 g5 g6 g7)
  from entry_distances [OF short_entry_example_floats, of 0] have t:
    "float_units (float_abs (float_sub (round_decimal False 4490 0) (round_decimal False 450025 (- 2))))
        = map_option abs (float_units (float_sub (round_decimal False 4490 0) (round_decimal False 450025 (- 2))))"
    by blast
  have au:
    "float_units (float_abs (float_sub (round_decimal False 4490 0) (round_decimal False 450025 (- 2))))
        = Some (41 * 2 ^ 1072)"
    unfolding t u by simp
  have u1: "float_units (round_decimal False 4490 0) = Some (17960 * 2 ^ 1072)"
    by (simp add: float_eval float_units_def)
  have u2: "float_units (round_decimal False 450025 (- 2)) = Some (18001 * 2 ^ 1072)"
    by (simp add: float_eval float_units_def)
  from entry_example_floats long short_entry_example_floats n1 n2 n3 raw short au u u1 u2
  show ?thesis by blast
qed

text \<open>
  C9. For an entry payload whose numeric fields \<open>float\<close> accepts, the message has a field
  Midnight Open exactly when the payload has the key \<open>mo_bias\<close>, and its text is then
  that value as \<open>str\<close> gives it: the value itself when it is a text.
\<close>

theorem midnight_open_field:
  assumes "py_float (dict_get d (lit ''entry'') (JInt 0)) = Inr entry"
    and "py_float (dict_get d (lit ''stop'') (JInt 0)) = Inr stop"
    and "py_float (dict_get d (lit ''tp1'') (JInt 0)) = Inr tp1"
    and "py_float (dict_get d (lit ''tp2'') (JInt 0)) = Inr tp2"
  shows "built_field ([0x1F319] @ lit '' Midnight Open'') (entry_embed now (JObj d)) =
           map_option py_str (map_of d (lit ''mo_bias''))
       \<and> (\<forall>s. map_of d (lit ''mo_bias'') = Some (JStr s) \<longrightarrow>
              built_field ([0x1F319] @ lit '' Midnight Open'') (entry_embed now (JObj d)) = Some s)
       \<and> (\<forall>e. entry_embed now (JObj d) = Inr e \<longrightarrow>
              ((\<exists>f \<in> set (embed_fields e). field_name f = [0x1F319] @ lit '' Midnight Open'')
               \<longleftrightarrow> lit ''mo_bias'' \<in> fst ` set d))"
proof -
  have main: "built_field ([0x1F319] @ lit '' Midnight Open'') (entry_embed now (JObj d)) =
           map_option py_str (map_of d (lit ''mo_bias''))"
    using assms by (simp add: entry_embed_def Let_def split: option.splits)
  have str: "\<forall>s. map_of d (lit ''mo_bias'') = Some (JStr s) \<longrightarrow>
              built_field ([0x1F319] @ lit '' Midnight Open'') (entry_embed now (JObj d)) = Some s"
    using main by (auto simp: py_str_def)
  have ex: "\<forall>e. entry_embed now (JObj d) = Inr e \<longrightarrow>
              ((\<exists>f \<in> set (embed_fields e). field_name f = [0x1F319] @ lit '' Midnight Open'')
               \<longleftrightarrow> lit ''mo_bias'' \<in> fst ` set d)"
  proof (intro allI impI)
    fix e assume e: "entry_embed now (JObj d) = Inr e"
    from main e have "field_text ([0x1F319] @ lit '' Midnight Open'') e = map_option py_str (map_of d (lit ''mo_bias''))"
      by simp
    then have "(field_text ([0x1F319] @ lit '' Midnight Open'') e = None) \<longleftrightarrow> map_of d (lit ''mo_bias'') = None"
      by simp
    then show "(\<exists>f \<in> set (embed_fields e). field_name f = [0x1F319] @ lit '' Midnight Open'')
               \<longleftrightarrow> lit ''mo_bias'' \<in> fst ` set d"
      by (auto simp: field_text_def find_None_iff map_of_eq_None_iff)
  qed
  from main str ex show ?thesis by blast
qed

theorem midnight_open_field_witness:
  "py_float (dict_get entry_example (lit ''entry'') (JInt 0)) = Inr (round_decimal False 450025 (- 2))
   \<and> py_float (dict_get entry_example (lit ''stop'') (JInt 0)) = Inr (round_decimal False 4490 0)
   \<and> py_float (dict_get entry_example (lit ''tp1'') (JInt 0)) = Inr (round_decimal False 45135 (- 1))
   \<and> py_float (dict_get entry_example (lit ''tp2'') (JInt 0)) = Inr (round_decimal False 452075 (- 2))
   \<and> map_of entry_example (lit ''mo_bias'') = Some (JStr (lit ''Above MO''))
   \<and> built_field ([0x1F319] @ lit '' Midnight Open'') (entry_embed 0 (JObj entry_example)) =
        Some (lit ''Above MO'')
   \<and> py_float (dict_get [] (lit ''entry'') (JInt 0)) = Inr (round_decimal False 0 0)
   \<and> map_of [] (lit ''mo_bias'') = (None :: json option)
   \<and> built_field ([0x1F319] @ lit '' Midnight Open'') (entry_embed 0 (JObj [])) = None"
proof -
  have m: "map_of entry_example (lit ''mo_bias'') = Some (JStr (lit ''Above MO''))"
    by (simp add: entry_example_def)
  from midnight_open_field [OF entry_example_floats, of 0] m
  have r1: "built_field ([0x1F319] @ lit '' Midnight Open'') (entry_embed 0 (JObj entry_example)) =
        Some (lit ''Above MO'')"
    by blast
  have n: "map_of [] (lit ''mo_bias'') = (None :: json option)"
    by simp
  from midnight_open_field [OF empty_payload_floats empty_payload_floats empty_payload_floats
      empty_payload_floats, of 0]
  have r2: "built_field ([0x1F319] @ lit '' Midnight Open'') (entry_embed 0 (JObj [])) = None"
    by simp
  from entry_example_floats m r1 empty_payload_floats [of "lit ''entry''"] n r2 show ?thesis by blast
qed

subsection \<open>The take-profit formatters\<close>

text \<open>
  C10. For a tp1 or tp2 payload whose numeric fields \<open>float\<close> accepts, the text of the
  field Profit (tp1) or Total Profit (tp2) is the character \<open>+\<close>, then the profit to two
  decimals, then \<open>pts\<close> after a blank. The \<open>+\<close> is a literal: a profit of \<open>-5.25\<close> reads
  \<open>+-5.25 pts\<close>.
\<close>

theorem profit_text:
  assumes "py_float (dict_get d (lit ''price'') (JInt 0)) = Inr price"
    and "py_float (dict_get d (lit ''profit'') (JInt 0)) = Inr profit"
  shows "built_field ([0x1F4C8] @ lit '' Profit'') (tp1_embed now (JObj d)) =
           Some (lit ''+'' @ format_fixed False False 2 profit @ lit '' pts'')
       \<and> built_field ([0x1F4C8] @ lit '' Total Profit'') (tp2_embed now (JObj d)) =
           Some (lit ''+'' @ format_fixed False False 2 profit @ lit '' pts'')
       \<and> (profit = round_decimal True 525 (- 2) \<longrightarrow>
            built_field ([0x1F4C8] @ lit '' Profit'') (tp1_embed now (JObj d)) = Some (lit ''+-5.25 pts'')
            \<and> built_field ([0x1F4C8] @ lit '' Total Profit'') (tp2_embed now (JObj d)) = Some (lit ''+-5.25 pts''))"
proof -
  have a: "built_field ([0x1F4C8] @ lit '' Profit'') (tp1_embed now (JObj d)) =
           Some (lit ''+'' @ format_fixed False False 2 profit @ lit '' pts'')"
    using assms by (simp add: tp1_embed_def Let_def)
  have b: "built_field ([0x1F4C8] @ lit '' Total Profit'') (tp2_embed now (JObj d)) =
           Some (lit ''+'' @ format_fixed False False 2 profit @ lit '' pts'')"
    using assms by (simp add: tp2_embed_def Let_def)
  have c: "lit ''+'' @ format_fixed False False 2 (round_decimal True 525 (- 2)) @ lit '' pts'' = lit ''+-5.25 pts''"
    by (simp add: float_eval format_eval)
  from a b c show ?thesis by simp
qed

theorem profit_text_witness:
  "py_float (dict_get losing_tp_example (lit ''price'') (JInt 0)) = Inr (round_decimal False 450025 (- 2))
   \<and> py_float (dict_get losing_tp_example (lit ''profit'') (JInt 0)) = Inr (round_decimal True 525 (- 2))
   \<and> built_field ([0x1F4C8] @ lit '' Profit'') (tp1_embed 0 (JObj losing_tp_example)) = Some (lit ''+-5.25 pts'')
   \<and> built_field ([0x1F4C8] @ lit '' Total Profit'') (tp2_embed 0 (JObj losing_tp_example)) = Some (lit ''+-5.25 pts'')"
proof -
  from profit_text [OF losing_tp_example_floats, of 0] losing_tp_example_floats show ?thesis by blast
qed

subsection \<open>The end-of-day formatter and the colours\<close>

lemma le_zero_not_gt_zero: "le_zero x \<Longrightarrow> \<not> gt_zero x"
  by (cases x) (auto simp: le_zero_def)

lemma zero_cases: "eq_zero x \<Longrightarrow> \<not> gt_zero x \<and> \<not> lt_zero x"
  by (cases x) auto

lemma red_not_green [simp]: "red \<noteq> green"
  by (simp add: green_def red_def)

lemma gt_zero_not_lt_zero: "gt_zero x \<Longrightarrow> \<not> lt_zero x"
  by (cases x) auto

text \<open>
  C4, as the code has it. For an eod payload whose numeric fields \<open>float\<close> accepts, the
  field Result reads PROFIT when \<open>pnl > 0\<close>, LOSS when \<open>pnl < 0\<close> and BREAKEVEN when
  \<open>pnl == 0\<close>; the colour is green when \<open>pnl > 0\<close> and red otherwise, so that \<open>pnl == 0\<close>
  gives BREAKEVEN in red. The text of the field P&L is the signed two-decimal rendering
  followed by \<open>pts\<close>: for \<open>pnl = -5.25\<close>, Result is LOSS, the colour red and the P&L text
  \<open>-5.25 pts\<close>.
\<close>

theorem eod_result:
  assumes "py_float (dict_get d (lit ''price'') (JInt 0)) = Inr price"
    and "py_float (dict_get d (lit ''pnl'') (JInt 0)) = Inr pnl"
  shows "(gt_zero pnl \<longrightarrow> built_field ([0x1F4CB] @ lit '' Result'') (eod_embed now (JObj d)) = Some (lit ''PROFIT''))
       \<and> (lt_zero pnl \<longrightarrow> built_field ([0x1F4CB] @ lit '' Result'') (eod_embed now (JObj d)) = Some (lit ''LOSS''))
       \<and> (eq_zero pnl \<longrightarrow> built_field ([0x1F4CB] @ lit '' Result'') (eod_embed now (JObj d)) = Some (lit ''BREAKEVEN'')
                           \<and> built_color (eod_embed now (JObj d)) = Some red)
       \<and> (built_color (eod_embed now (JObj d)) = Some green \<longleftrightarrow> gt_zero pnl)
       \<and> (\<not> gt_zero pnl \<longrightarrow> built_color (eod_embed now (JObj d)) = Some red)
       \<and> built_field ([0x1F4CA] @ lit '' P&L'') (eod_embed now (JObj d)) =
            Some (format_fixed True False 2 pnl @ lit '' pts'')
       \<and> (pnl = round_decimal True 525 (- 2) \<longrightarrow>
            built_field ([0x1F4CB] @ lit '' Result'') (eod_embed now (JObj d)) = Some (lit ''LOSS'')
            \<and> built_color (eod_embed now (JObj d)) = Some red
            \<and> built_field ([0x1F4CA] @ lit '' P&L'') (eod_embed now (JObj d)) = Some (lit ''-5.25 pts''))"
proof -
  have res: "built_field ([0x1F4CB] @ lit '' Result'') (eod_embed now (JObj d)) =
        Some (if gt_zero pnl then lit ''PROFIT'' else if lt_zero pnl then lit ''LOSS'' else lit ''BREAKEVEN'')"
    using assms by (simp add: eod_embed_def Let_def)
  have col: "built_color (eod_embed now (JObj d)) = Some (if gt_zero pnl then green else red)"
    using assms by (simp add: eod_embed_def Let_def)
  have pl: "built_field ([0x1F4CA] @ lit '' P&L'') (eod_embed now (JObj d)) =
            Some (format_fixed True False 2 pnl @ lit '' pts'')"
    using assms by (simp add: eod_embed_def Let_def)
  have t: "format_fixed True False 2 (round_decimal True 525 (- 2)) @ lit '' pts'' = lit ''-5.25 pts''"
    by (simp add: float_eval format_eval)
  have s: "lt_zero (round_decimal True 525 (- 2)) \<and> \<not> gt_zero (round_decimal True 525 (- 2))"
    by (simp add: float_eval)
  have ex: "pnl = round_decimal True 525 (- 2) \<longrightarrow>
            built_field ([0x1F4CB] @ lit '' Result'') (eod_embed now (JObj d)) = Some (lit ''LOSS'')
            \<and> built_color (eod_embed now (JObj d)) = Some red
            \<and> built_field ([0x1F4CA] @ lit '' P&L'') (eod_embed now (JObj d)) = Some (lit ''-5.25 pts'')"
  proof
    assume p: "pnl = round_decimal True 525 (- 2)"
    from res s p have r1: "built_field ([0x1F4CB] @ lit '' Result'') (eod_embed now (JObj d)) = Some (lit ''LOSS'')"
      by simp
    from col s p have r2: "built_color (eod_embed now (JObj d)) = Some red"
      by simp
    from pl p have "built_field ([0x1F4CA] @ lit '' P&L'') (eod_embed now (JObj d)) =
        Some (format_fixed True False 2 (round_decimal True 525 (- 2)) @ lit '' pts'')"
      by simp
    then have r3: "built_field ([0x1F4CA] @ lit '' P&L'') (eod_embed now (JObj d)) = Some (lit ''-5.25 pts'')"
      by (simp only: t)
    from r1 r2 r3 show "built_field ([0x1F4CB] @ lit '' Result'') (eod_embed now (JObj d)) = Some (lit ''LOSS'')
            \<and> built_color (eod_embed now (JObj d)) = Some red
            \<and> built_field ([0x1F4CA] @ lit '' P&L'') (eod_embed now (JObj d)) = Some (lit ''-5.25 pts'')"
      by blast
  qed
  from res col pl ex show ?thesis
    by (auto dest: zero_cases gt_zero_not_lt_zero)
qed

theorem eod_result_witness:
  "py_float (dict_get eod_example (lit ''price'') (JInt 0)) = Inr (round_decimal False 44800 (- 1))
   \<and> py_float (dict_get eod_example (lit ''pnl'') (JInt 0)) = Inr (round_decimal True 525 (- 2))
   \<and> lt_zero (round_decimal True 525 (- 2)) \<and> \<not> gt_zero (round_decimal True 525 (- 2))
   \<and> built_field ([0x1F4CB] @ lit '' Result'') (eod_embed 0 (JObj eod_example)) = Some (lit ''LOSS'')
   \<and> built_color (eod_embed 0 (JObj eod_example)) = Some red
   \<and> built_field ([0x1F4CA] @ lit '' P&L'') (eod_embed 0 (JObj eod_example)) = Some (lit ''-5.25 pts'')
   \<and> py_float (dict_get [] (lit ''pnl'') (JInt 0)) = Inr (round_decimal False 0 0)
   \<and> eq_zero (round_decimal False 0 0)
   \<and> built_field ([0x1F4CB] @ lit '' Result'') (eod_embed 0 (JObj [])) = Some (lit ''BREAKEVEN'')
   \<and> built_color (eod_embed 0 (JObj [])) = Some red
   \<and> py_float (dict_get winning_eod_example (lit ''pnl'') (JInt 0)) = Inr (round_decimal False 3 0)
   \<and> gt_zero (round_decimal False 3 0)
   \<and> built_field ([0x1F4CB] @ lit '' Result'') (eod_embed 0 (JObj winning_eod_example)) = Some (lit ''PROFIT'')
   \<and> built_color (eod_embed 0 (JObj winning_eod_example)) = Some green"
proof -
  have s: "lt_zero (round_decimal True 525 (- 2)) \<and> \<not> gt_zero (round_decimal True 525 (- 2))"
    by (simp add: float_eval)
  have z: "eq_zero (round_decimal False 0 0)"
    by (simp add: float_eval)
  have g: "gt_zero (round_decimal False 3 0)"
    by (simp add: float_eval)
  from eod_result [OF eod_example_floats, of 0] s
  have r1: "built_field ([0x1F4CB] @ lit '' Result'') (eod_embed 0 (JObj eod_example)) = Some (lit ''LOSS'')
     \<and> built_color (eod_embed 0 (JObj eod_example)) = Some red
     \<and> built_field ([0x1F4CA] @ lit '' P&L'') (eod_embed 0 (JObj eod_example)) = Some (lit ''-5.25 pts'')"
    by blast
  from eod_result [OF empty_payload_floats empty_payload_floats, of 0] z
  have r2: "built_field ([0x1F4CB] @ lit '' Result'') (eod_embed 0 (JObj [])) = Some (lit ''BREAKEVEN'')
     \<and> built_color (eod_embed 0 (JObj [])) = Some red"
    by blast
  from eod_result [OF winning_eod_example_floats, of 0] g
  have r3: "built_field ([0x1F4CB] @ lit '' Result'') (eod_embed 0 (JObj winning_eod_example)) = Some (lit ''PROFIT'')
     \<and> built_color (eod_embed 0 (JObj winning_eod_example)) = Some green"
    by blast
  from eod_example_floats s r1 empty_payload_floats [of "lit ''pnl''"] z r2
    winning_eod_example_floats g r3
  show ?thesis by blast
qed

theorem eod_text_counterexample:
  "built_field ([0x1F4CA] @ lit '' P&L'') (eod_embed 0 (JObj eod_example)) = Some (lit ''-5.25 pts'')
   \<and> built_field ([0x1F4CA] @ lit '' P&L'') (eod_embed 0 (JObj eod_example)) \<noteq> Some (lit ''-5.25'')"
proof -
  have t: "format_fixed True False 2 (round_decimal True 525 (- 2)) @ lit '' pts'' = lit ''-5.25 pts''"
    by (simp add: float_eval format_eval)
  have "built_field ([0x1F4CA] @ lit '' P&L'') (eod_embed 0 (JObj eod_example)) =
          Some (format_fixed True False 2 (round_decimal True 525 (- 2)) @ lit '' pts'')"
    by (simp add: eod_embed_def eod_example_def payload_eval Let_def)
  then have "built_field ([0x1F4CA] @ lit '' P&L'') (eod_embed 0 (JObj eod_example)) = Some (lit ''-5.25 pts'')"
    by (simp only: t)
  then show ?thesis by simp
qed

text \<open>
  C5. The colour of an entry message is green exactly when the direction (\<open>UNKNOWN\<close> when
  the payload has none) is the text \<open>LONG\<close>, and red for any other value; the colour of an
  eod message is green exactly when \<open>pnl > 0\<close>, and red when \<open>pnl <= 0\<close>.
\<close>

theorem colour_selection:
  assumes "py_float (dict_get d (lit ''entry'') (JInt 0)) = Inr entry"
    and "py_float (dict_get d (lit ''stop'') (JInt 0)) = Inr stop"
    and "py_float (dict_get d (lit ''tp1'') (JInt 0)) = Inr tp1"
    and "py_float (dict_get d (lit ''tp2'') (JInt 0)) = Inr tp2"
    and "py_float (dict_get d' (lit ''price'') (JInt 0)) = Inr price"
    and "py_float (dict_get d' (lit ''pnl'') (JInt 0)) = Inr pnl"
  shows "(built_color (entry_embed now (JObj d)) = Some green
            \<longleftrightarrow> dict_get d (lit ''direction'') (JStr (lit ''UNKNOWN'')) = JStr (lit ''LONG''))
       \<and> (dict_get d (lit ''direction'') (JStr (lit ''UNKNOWN'')) \<noteq> JStr (lit ''LONG'')
            \<longrightarrow> built_color (entry_embed now (JObj d)) = Some red)
       \<and> (built_color (eod_embed now (JObj d')) = Some green \<longleftrightarrow> gt_zero pnl)
       \<and> (le_zero pnl \<longrightarrow> built_color (eod_embed now (JObj d')) = Some red)"
proof -
  have a: "built_color (entry_embed now (JObj d)) =
        Some (if dict_get d (lit ''direction'') (JStr (lit ''UNKNOWN'')) = JStr (lit ''LONG'') then green else red)"
    using assms(1-4) by (simp add: entry_embed_def Let_def split: option.splits)
  have b: "built_color (eod_embed now (JObj d')) = Some (if gt_zero pnl then green else red)"
    using assms(5,6) by (simp add: eod_embed_def Let_def)
  from a b show ?thesis
    by (auto dest: le_zero_not_gt_zero)
qed

theorem colour_selection_witness:
  "py_float (dict_get entry_example (lit ''entry'') (JInt 0)) = Inr (round_decimal False 450025 (- 2))
   \<and> py_float (dict_get entry_example (lit ''stop'') (JInt 0)) = Inr (round_decimal False 4490 0)
   \<and> py_float (dict_get entry_example (lit ''tp1'') (JInt 0)) = Inr (round_decimal False 45135 (- 1))
   \<and> py_float (dict_get entry_example (lit ''tp2'') (JInt 0)) = Inr (round_decimal False 452075 (- 2))
   \<and> py_float (dict_get eod_example (lit ''price'') (JInt 0)) = Inr (round_decimal False 44800 (- 1))
   \<and> py_float (dict_get eod_example (lit ''pnl'') (JInt 0)) = Inr (round_decimal True 525 (- 2))
   \<and> dict_get entry_example (lit ''direction'') (JStr (lit ''UNKNOWN'')) = JStr (lit ''LONG'')
   \<and> le_zero (round_decimal True 525 (- 2))
   \<and> built_color (entry_embed 0 (JObj entry_example)) = Some green
   \<and> built_color (eod_embed 0 (JObj eod_example)) = Some red
   \<and> dict_get [] (lit ''direction'') (JStr (lit ''UNKNOWN'')) \<noteq> JStr (lit ''LONG'')
   \<and> gt_zero (round_decimal False 3 0)
   \<and> built_color (entry_embed 0 (JObj [])) = Some red
   \<and> built_color (eod_embed 0 (JObj winning_eod_example)) = Some green"
proof -
  have g: "dict_get entry_example (lit ''direction'') (JStr (lit ''UNKNOWN'')) = JStr (lit ''LONG'')"
    by (simp add: entry_example_def dict_get_def)
  have l: "le_zero (round_decimal True 525 (- 2))"
    by (simp add: float_eval le_zero_def)
  have u: "dict_get [] (lit ''direction'') (JStr (lit ''UNKNOWN'')) \<noteq> JStr (lit ''LONG'')"
    by (simp add: dict_get_def)
  have w: "gt_zero (round_decimal False 3 0)"
    by (simp add: float_eval)
  from colour_selection [OF entry_example_floats eod_example_floats, of 0] g l
  have r1: "built_color (entry_embed 0 (JObj entry_example)) = Some green
     \<and> built_color (eod_embed 0 (JObj eod_example)) = Some red"
    by blast
  from colour_selection [OF empty_payload_floats empty_payload_floats empty_payload_floats
      empty_payload_floats winning_eod_example_floats, of 0] u w
  have r2: "built_color (entry_embed 0 (JObj [])) = Some red
     \<and> built_color (eod_embed 0 (JObj winning_eod_example)) = Some green"
    by blast
  from entry_example_floats eod_example_floats g l r1 u w r2 show ?thesis by blast
qed

subsection \<open>The dispatcher\<close>

lemma sent_channel_send: "length (sent (snd (channel_send ch m st))) \<le> Suc (length (sent st))"
  by (simp add: channel_send_def)

lemma sent_send_embed: "length (sent (snd (send_embed ch r st))) \<le> Suc (length (sent st))"
  by (cases r) (simp_all add: send_embed_def sent_channel_send)

text \<open>
  C2, as the code has it, for every payload. \<open>send_alert\<close> resolves the channel first:
  when there is none it prints \<open>Channel ... not found!\<close> and returns, whatever the payload,
  and nothing is sent. With the channel resolved, a payload that is not a dict has no
  \<open>get\<close>: reading \<open>type\<close> raises \<open>AttributeError\<close> and no formatter gets the payload. With
  the channel resolved and a dict as payload, the dispatcher reads \<open>type\<close> (\<open>unknown\<close> when
  the payload has none) and hands the payload to exactly one formatter: \<open>entry\<close>, \<open>tp1\<close>,
  \<open>tp2\<close>, \<open>sl\<close> and \<open>eod\<close> each to their own, every other value to the generic one, which
  sends a text ending in \<open>json.dumps\<close> of the whole payload. In every case at most one
  message is sent.
\<close>

theorem send_alert_routes:
  "(get_channel st (DISCORD_CHANNEL_ID cfg) = None \<longrightarrow>
      send_alert cfg data st =
        (Inr (), py_print (lit ''Channel '' @ str_of_int (DISCORD_CHANNEL_ID cfg) @ lit '' not found!'') st)
      \<and> sent (snd (send_alert cfg data st)) = sent st)
   \<and> (get_channel st (DISCORD_CHANNEL_ID cfg) = Some ch \<longrightarrow>
        ((\<forall>d'. data \<noteq> JObj d') \<longrightarrow> send_alert cfg data st = (Inl AttributeError, st))
      \<and> (alert_type_of d = JStr (lit ''entry'') \<longrightarrow>
            send_alert cfg (JObj d) st = send_entry_alert ch (JObj d) st)
      \<and> (alert_type_of d = JStr (lit ''tp1'') \<longrightarrow>
            send_alert cfg (JObj d) st = send_tp1_alert ch (JObj d) st)
      \<and> (alert_type_of d = JStr (lit ''tp2'') \<longrightarrow>
            send_alert cfg (JObj d) st = send_tp2_alert ch (JObj d) st)
      \<and> (alert_type_of d = JStr (lit ''sl'') \<longrightarrow>
            send_alert cfg (JObj d) st = send_sl_alert ch (JObj d) st)
      \<and> (alert_type_of d = JStr (lit ''eod'') \<longrightarrow>
            send_alert cfg (JObj d) st = send_eod_alert ch (JObj d) st)
      \<and> (alert_type_of d \<notin> {JStr (lit ''entry''), JStr (lit ''tp1''), JStr (lit ''tp2''),
                              JStr (lit ''sl''), JStr (lit ''eod'')} \<longrightarrow>
            send_alert cfg (JObj d) st =
              channel_send ch (Content ([0x1F4E2] @ lit '' Alert: '' @ json_dumps (JObj d))) st)
      \<and> (map_of d (lit ''type'') = None \<longrightarrow>
            alert_type_of d = JStr (lit ''unknown'')
            \<and> send_alert cfg (JObj d) st =
                channel_send ch (Content ([0x1F4E2] @ lit '' Alert: '' @ json_dumps (JObj d))) st))
   \<and> length (sent (snd (send_alert cfg data st))) \<le> Suc (length (sent st))"
proof -
  have none: "get_channel st (DISCORD_CHANNEL_ID cfg) = None \<longrightarrow>
      send_alert cfg data st =
        (Inr (), py_print (lit ''Channel '' @ str_of_int (DISCORD_CHANNEL_ID cfg) @ lit '' not found!'') st)
      \<and> sent (snd (send_alert cfg data st)) = sent st"
    by (simp add: send_alert_def py_print_def)
  have other: "get_channel st (DISCORD_CHANNEL_ID cfg) = Some ch \<longrightarrow> (\<forall>d'. data \<noteq> JObj d') \<longrightarrow>
      send_alert cfg data st = (Inl AttributeError, st)"
    by (cases data) (simp_all add: send_alert_def)
  have len: "length (sent (snd (send_alert cfg data st))) \<le> Suc (length (sent st))"
  proof (cases "get_channel st (DISCORD_CHANNEL_ID cfg)")
    case None
    then show ?thesis by (simp add: send_alert_def py_print_def)
  next
    case (Some c)
    then show ?thesis
      by (cases data)
        (simp_all add: send_alert_def Let_def send_entry_alert_def send_tp1_alert_def
          send_tp2_alert_def send_sl_alert_def send_eod_alert_def sent_send_embed sent_channel_send)
  qed
  have missing: "map_of d (lit ''type'') = None \<longrightarrow> alert_type_of d = JStr (lit ''unknown'')"
    by (simp add: alert_type_of_def dict_get_def)
  have routes: "get_channel st (DISCORD_CHANNEL_ID cfg) = Some ch \<longrightarrow>
        (alert_type_of d = JStr (lit ''entry'') \<longrightarrow>
            send_alert cfg (JObj d) st = send_entry_alert ch (JObj d) st)
      \<and> (alert_type_of d = JStr (lit ''tp1'') \<longrightarrow>
            send_alert cfg (JObj d) st = send_tp1_alert ch (JObj d) st)
      \<and> (alert_type_of d = JStr (lit ''tp2'') \<longrightarrow>
            send_alert cfg (JObj d) st = send_tp2_alert ch (JObj d) st)
      \<and> (alert_type_of d = JStr (lit ''sl'') \<longrightarrow>
            send_alert cfg (JObj d) st = send_sl_alert ch (JObj d) st)
      \<and> (alert_type_of d = JStr (lit ''eod'') \<longrightarrow>
            send_alert cfg (JObj d) st = send_eod_alert ch (JObj d) st)
      \<and> (alert_type_of d \<notin> {JStr (lit ''entry''), JStr (lit ''tp1''), JStr (lit ''tp2''),
                              JStr (lit ''sl''), JStr (lit ''eod'')} \<longrightarrow>
            send_alert cfg (JObj d) st =
              channel_send ch (Content ([0x1F4E2] @ lit '' Alert: '' @ json_dumps (JObj d))) st)
      \<and> (map_of d (lit ''type'') = None \<longrightarrow>
            alert_type_of d = JStr (lit ''unknown'')
            \<and> send_alert cfg (JObj d) st =
                channel_send ch (Content ([0x1F4E2] @ lit '' Alert: '' @ json_dumps (JObj d))) st)"
    using missing by (auto simp: send_alert_def alert_type_of_def Let_def generic_text_def)
  from none other len routes show ?thesis by blast
qed

theorem send_alert_routes_witness:
  "get_channel sample_system (DISCORD_CHANNEL_ID sample_config) = Some 42
   \<and> alert_type_of unknown_example \<notin> {JStr (lit ''entry''), JStr (lit ''tp1''), JStr (lit ''tp2''),
                                         JStr (lit ''sl''), JStr (lit ''eod'')}
   \<and> send_alert sample_config (JObj unknown_example) sample_system =
       channel_send 42 (Content ([0x1F4E2] @ lit '' Alert: '' @ json_dumps (JObj unknown_example))) sample_system
   \<and> json_dumps (JObj unknown_example) =
       lit ''{'' @ [10] @ lit ''  '' @ [34] @ lit ''type'' @ [34] @ lit '': '' @ [34] @ lit ''ping'' @ [34]
       @ lit '','' @ [10] @ lit ''  '' @ [34] @ lit ''n'' @ [34] @ lit '': 1'' @ [10] @ lit ''}''
   \<and> alert_type_of entry_example = JStr (lit ''entry'')
   \<and> send_alert sample_config (JObj entry_example) sample_system =
       send_entry_alert 42 (JObj entry_example) sample_system
   \<and> alert_type_of [(lit ''type'', JStr (lit ''tp1''))] = JStr (lit ''tp1'')
   \<and> send_alert sample_config (JObj [(lit ''type'', JStr (lit ''tp1''))]) sample_system =
       send_tp1_alert 42 (JObj [(lit ''type'', JStr (lit ''tp1''))]) sample_system
   \<and> alert_type_of [(lit ''type'', JStr (lit ''tp2''))] = JStr (lit ''tp2'')
   \<and> send_alert sample_config (JObj [(lit ''type'', JStr (lit ''tp2''))]) sample_system =
       send_tp2_alert 42 (JObj [(lit ''type'', JStr (lit ''tp2''))]) sample_system
   \<and> alert_type_of [(lit ''type'', JStr (lit ''sl''))] = JStr (lit ''sl'')
   \<and> send_alert sample_config (JObj [(lit ''type'', JStr (lit ''sl''))]) sample_system =
       send_sl_alert 42 (JObj [(lit ''type'', JStr (lit ''sl''))]) sample_system
   \<and> alert_type_of eod_example = JStr (lit ''eod'')
   \<and> send_alert sample_config (JObj eod_example) sample_system =
       send_eod_alert 42 (JObj eod_example) sample_system
   \<and> map_of [] (lit ''type'') = (None :: json option)
   \<and> send_alert sample_config (JObj []) sample_system =
       channel_send 42 (Content ([0x1F4E2] @ lit '' Alert: '' @ json_dumps (JObj []))) sample_system
   \<and> get_channel offline_system (DISCORD_CHANNEL_ID sample_config) = None
   \<and> send_alert sample_config (JObj eod_example) offline_system =
       (Inr (), py_print (lit ''Channel '' @ str_of_int (DISCORD_CHANNEL_ID sample_config)
                           @ lit '' not found!'') offline_system)
   \<and> sent (snd (send_alert sample_config (JObj eod_example) offline_system)) = sent offline_system
   \<and> send_alert sample_config (JArr [JInt 1]) offline_system =
       (Inr (), py_print (lit ''Channel '' @ str_of_int (DISCORD_CHANNEL_ID sample_config)
                           @ lit '' not found!'') offline_system)
   \<and> lit ''Channel '' @ str_of_int (DISCORD_CHANNEL_ID sample_config) @ lit '' not found!'' =
       lit ''Channel 42 not found!''
   \<and> send_alert sample_config (JArr [JObj entry_example]) sample_system =
       (Inl AttributeError, sample_system)
   \<and> send_alert sample_config JNull sample_system = (Inl AttributeError, sample_system)
   \<and> send_alert sample_config (JStr (lit ''entry'')) sample_system = (Inl AttributeError, sample_system)
   \<and> length (sent (snd (send_alert sample_config (JObj entry_example) sample_system)))
       \<le> Suc (length (sent sample_system))"
proof -
  have h: "get_channel sample_system (DISCORD_CHANNEL_ID sample_config) = Some 42"
    by (simp add: get_channel_def sample_system_def sample_config_def)
  have u: "alert_type_of unknown_example \<notin> {JStr (lit ''entry''), JStr (lit ''tp1''), JStr (lit ''tp2''),
                                         JStr (lit ''sl''), JStr (lit ''eod'')}"
    by (simp add: alert_type_of_def unknown_example_def dict_get_def)
  have e: "alert_type_of entry_example = JStr (lit ''entry'')"
    by (simp add: alert_type_of_def entry_example_def dict_get_def)
  have t1: "alert_type_of [(lit ''type'', JStr (lit ''tp1''))] = JStr (lit ''tp1'')"
    by (simp add: alert_type_of_def dict_get_def)
  have t2: "alert_type_of [(lit ''type'', JStr (lit ''tp2''))] = JStr (lit ''tp2'')"
    by (simp add: alert_type_of_def dict_get_def)
  have t3: "alert_type_of [(lit ''type'', JStr (lit ''sl''))] = JStr (lit ''sl'')"
    by (simp add: alert_type_of_def dict_get_def)
  have t4: "alert_type_of eod_example = JStr (lit ''eod'')"
    by (simp add: alert_type_of_def eod_example_def dict_get_def)
  have n: "map_of [] (lit ''type'') = (None :: json option)"
    by simp
  have j: "json_dumps (JObj unknown_example) =
       lit ''{'' @ [10] @ lit ''  '' @ [34] @ lit ''type'' @ [34] @ lit '': '' @ [34] @ lit ''ping'' @ [34]
       @ lit '','' @ [10] @ lit ''  '' @ [34] @ lit ''n'' @ [34] @ lit '': 1'' @ [10] @ lit ''}''"
    by (simp add: json_dumps_def unknown_example_def json_string_def json_char_def newline_indent_def
        str_of_int_def format_eval eval_nat_numeral)
  have o: "get_channel offline_system (DISCORD_CHANNEL_ID sample_config) = None"
    by (simp add: get_channel_def offline_system_def)
  have m: "lit ''Channel '' @ str_of_int (DISCORD_CHANNEL_ID sample_config) @ lit '' not found!'' =
           lit ''Channel 42 not found!''"
    by (simp add: sample_config_def str_of_int_def format_eval)
  have a1: "\<forall>d'. JArr [JObj entry_example] \<noteq> JObj d'"
    by simp
  have a2: "\<forall>d'. JNull \<noteq> JObj d'"
    by simp
  have a3: "\<forall>d'. JStr (lit ''entry'') \<noteq> JObj d'"
    by simp
  from send_alert_routes [of sample_system sample_config "JObj unknown_example" 42 unknown_example] h u
  have r1: "send_alert sample_config (JObj unknown_example) sample_system =
       channel_send 42 (Content ([0x1F4E2] @ lit '' Alert: '' @ json_dumps (JObj unknown_example))) sample_system"
    by blast
  from send_alert_routes [of sample_system sample_config "JObj entry_example" 42 entry_example] h e
  have r2: "send_alert sample_config (JObj entry_example) sample_system =
       send_entry_alert 42 (JObj entry_example) sample_system
     \<and> length (sent (snd (send_alert sample_config (JObj entry_example) sample_system)))
       \<le> Suc (length (sent sample_system))"
    by blast
  from send_alert_routes [of sample_system sample_config JNull 42 "[(lit ''type'', JStr (lit ''tp1''))]"] h t1
  have r3: "send_alert sample_config (JObj [(lit ''type'', JStr (lit ''tp1''))]) sample_system =
       send_tp1_alert 42 (JObj [(lit ''type'', JStr (lit ''tp1''))]) sample_system"
    by blast
  from send_alert_routes [of sample_system sample_config JNull 42 "[(lit ''type'', JStr (lit ''tp2''))]"] h t2
  have r4: "send_alert sample_config (JObj [(lit ''type'', JStr (lit ''tp2''))]) sample_system =
       send_tp2_alert 42 (JObj [(lit ''type'', JStr (lit ''tp2''))]) sample_system"
    by blast
  from send_alert_routes [of sample_system sample_config JNull 42 "[(lit ''type'', JStr (lit ''sl''))]"] h t3
  have r5: "send_alert sample_config (JObj [(lit ''type'', JStr (lit ''sl''))]) sample_system =
       send_sl_alert 42 (JObj [(lit ''type'', JStr (lit ''sl''))]) sample_system"
    by blast
  from send_alert_routes [of sample_system sample_config JNull 42 eod_example] h t4
  have r6: "send_alert sample_config (JObj eod_example) sample_system =
       send_eod_alert 42 (JObj eod_example) sample_system"
    by blast
  from send_alert_routes [of sample_system sample_config JNull 42 "[]"] h n
  have r7: "send_alert sample_config (JObj []) sample_system =
       channel_send 42 (Content ([0x1F4E2] @ lit '' Alert: '' @ json_dumps (JObj []))) sample_system"
    by blast
  from send_alert_routes [of offline_system sample_config "JObj eod_example" 42 "[]"] o
  have r8: "send_alert sample_config (JObj eod_example) offline_system =
       (Inr (), py_print (lit ''Channel '' @ str_of_int (DISCORD_CHANNEL_ID sample_config)
                           @ lit '' not found!'') offline_system)
     \<and> sent (snd (send_alert sample_config (JObj eod_example) offline_system)) = sent offline_system"
    by blast
  from send_alert_routes [of offline_system sample_config "JArr [JInt 1]" 42 "[]"] o
  have r9: "send_alert sample_config (JArr [JInt 1]) offline_system =
       (Inr (), py_print (lit ''Channel '' @ str_of_int (DISCORD_CHANNEL_ID sample_config)
                           @ lit '' not found!'') offline_system)"
    by blast
  from send_alert_routes [of sample_system sample_config "JArr [JObj entry_example]" 42 "[]"] h a1
  have r10: "send_alert sample_config (JArr [JObj entry_example]) sample_system =
       (Inl AttributeError, sample_system)"
    by blast
  from send_alert_routes [of sample_system sample_config JNull 42 "[]"] h a2
  have r11: "send_alert sample_config JNull sample_system = (Inl AttributeError, sample_system)"
    by blast
  from send_alert_routes [of sample_system sample_config "JStr (lit ''entry'')" 42 "[]"] h a3
  have r12: "send_alert sample_config (JStr (lit ''entry'')) sample_system =
       (Inl AttributeError, sample_system)"
    by blast
  from h u r1 j e r2 t1 r3 t2 r4 t3 r5 t4 r6 n r7 o r8 r9 m r10 r11 r12 show ?thesis by blast
qed

text \<open>
  When the channel is not resolved, \<open>send_alert\<close> prints a line and returns before it
  reads \<open>type\<close>: no formatter gets the payload, whereas the entry formatter, given this
  payload, sends a message. And a payload that is a list has no \<open>type\<close> to read: with the
  channel resolved, \<open>send_alert\<close> raises and sends nothing, whereas the generic formatter
  would have sent its text.
\<close>

theorem send_alert_unresolved_counterexample:
  "get_channel offline_system (DISCORD_CHANNEL_ID sample_config) = None
   \<and> alert_type_of entry_example = JStr (lit ''entry'')
   \<and> send_alert sample_config (JObj entry_example) offline_system =
       (Inr (), py_print (lit ''Channel 42 not found!'') offline_system)
   \<and> sent (snd (send_alert sample_config (JObj entry_example) offline_system)) = []
   \<and> length (sent (snd (send_entry_alert 42 (JObj entry_example) offline_system))) = 1
   \<and> get_channel sample_system (DISCORD_CHANNEL_ID sample_config) = Some 42
   \<and> send_alert sample_config (JArr [JObj entry_example]) sample_system =
       (Inl AttributeError, sample_system)
   \<and> sent (snd (send_alert sample_config (JArr [JObj entry_example]) sample_system)) = []"
proof -
  have h: "get_channel offline_system (DISCORD_CHANNEL_ID sample_config) = None"
    by (simp add: get_channel_def offline_system_def)
  have e: "alert_type_of entry_example = JStr (lit ''entry'')"
    by (simp add: alert_type_of_def entry_example_def dict_get_def)
  have n: "lit ''Channel '' @ str_of_int (DISCORD_CHANNEL_ID sample_config) @ lit '' not found!'' =
           lit ''Channel 42 not found!''"
    by (simp add: sample_config_def str_of_int_def format_eval)
  have r: "send_alert sample_config (JObj entry_example) offline_system =
       (Inr (), py_print (lit ''Channel 42 not found!'') offline_system)"
    by (simp only: send_alert_def h option.case n)
  have s: "sent (snd (send_alert sample_config (JObj entry_example) offline_system)) = []"
    unfolding r by (simp add: py_print_def offline_system_def)
  have "\<exists>b. entry_embed (utcnow offline_system) (JObj entry_example) = Inr b"
    by (simp add: entry_embed_def entry_example_floats Let_def split: option.splits)
  then obtain b where "entry_embed (utcnow offline_system) (JObj entry_example) = Inr b" ..
  then have f: "length (sent (snd (send_entry_alert 42 (JObj entry_example) offline_system))) = 1"
    by (simp add: send_entry_alert_def send_embed_def channel_send_def offline_system_def)
  have g: "get_channel sample_system (DISCORD_CHANNEL_ID sample_config) = Some 42"
    by (simp add: get_channel_def sample_system_def sample_config_def)
  have a: "send_alert sample_config (JArr [JObj entry_example]) sample_system =
       (Inl AttributeError, sample_system)"
    by (simp add: send_alert_def g)
  have b: "sent (snd (send_alert sample_config (JArr [JObj entry_example]) sample_system)) = []"
    unfolding a by (simp add: sample_system_def)
  from h e r s f g a b show ?thesis by blast
qed

subsection \<open>Exceptions in the dispatch path\<close>

lemma float_of_int_error: "float_of_int i = Inl e \<Longrightarrow> e = OverflowError"
  by (auto simp: float_of_int_def split: pyfloat.splits)

lemma float_of_str_error: "float_of_str s = Inl e \<Longrightarrow> e = ValueError"
  by (auto simp: float_of_str_def split: option.splits prod.splits)

lemma py_float_error: "py_float v = Inl e \<Longrightarrow> e \<in> {ValueError, TypeError, OverflowError}"
  by (cases v) (auto simp: py_float_def dest: float_of_int_error float_of_str_error)

lemma coerces_Inr: "coerces d k \<Longrightarrow> \<exists>x. py_float (dict_get d k (JInt 0)) = Inr x"
  by (cases "py_float (dict_get d k (JInt 0))") (auto simp: coerces_def)

lemma not_coerces_Inl:
  "\<not> coerces d k \<Longrightarrow> \<exists>e \<in> {ValueError, TypeError, OverflowError}. py_float (dict_get d k (JInt 0)) = Inl e"
  by (cases "py_float (dict_get d k (JInt 0))") (auto simp: coerces_def dest: py_float_error)

lemma and_then_cases:
  "and_then r f = (case r of Inl e \<Rightarrow> Inl e | Inr x \<Rightarrow> f x)"
  by (simp add: and_then_def)

lemma entry_embed_total:
  "(if \<forall>k \<in> set [lit ''entry'', lit ''stop'', lit ''tp1'', lit ''tp2'']. coerces d k
    then \<exists>e. entry_embed now (JObj d) = Inr e
    else \<exists>e \<in> {ValueError, TypeError, OverflowError}. entry_embed now (JObj d) = Inl e)"
proof (cases "\<forall>k \<in> set [lit ''entry'', lit ''stop'', lit ''tp1'', lit ''tp2'']. coerces d k")
  case True
  then obtain a b c e where "py_float (dict_get d (lit ''entry'') (JInt 0)) = Inr a"
    "py_float (dict_get d (lit ''stop'') (JInt 0)) = Inr b"
    "py_float (dict_get d (lit ''tp1'') (JInt 0)) = Inr c"
    "py_float (dict_get d (lit ''tp2'') (JInt 0)) = Inr e"
    by (auto dest!: coerces_Inr)
  with True show ?thesis
    by (simp add: entry_embed_def Let_def)
next
  case False
  then show ?thesis
    by (auto simp: entry_embed_def Let_def and_then_cases split: sum.splits
        dest!: not_coerces_Inl dest: py_float_error)
qed

lemma tp1_embed_total:
  "(if \<forall>k \<in> set [lit ''price'', lit ''profit'']. coerces d k
    then \<exists>e. tp1_embed now (JObj d) = Inr e
    else \<exists>e \<in> {ValueError, TypeError, OverflowError}. tp1_embed now (JObj d) = Inl e)"
proof (cases "\<forall>k \<in> set [lit ''price'', lit ''profit'']. coerces d k")
  case True
  then obtain a b where "py_float (dict_get d (lit ''price'') (JInt 0)) = Inr a"
    "py_float (dict_get d (lit ''profit'') (JInt 0)) = Inr b"
    by (auto dest!: coerces_Inr)
  with True show ?thesis
    by (simp add: tp1_embed_def Let_def)
next
  case False
  then show ?thesis
    by (auto simp: tp1_embed_def Let_def and_then_cases split: sum.splits
        dest!: not_coerces_Inl dest: py_float_error)
qed

lemma tp2_embed_total:
  "(if \<forall>k \<in> set [lit ''price'', lit ''profit'']. coerces d k
    then \<exists>e. tp2_embed now (JObj d) = Inr e
    else \<exists>e \<in> {ValueError, TypeError, OverflowError}. tp2_embed now (JObj d) = Inl e)"
proof (cases "\<forall>k \<in> set [lit ''price'', lit ''profit'']. coerces d k")
  case True
  then obtain a b where "py_float (dict_get d (lit ''price'') (JInt 0)) = Inr a"
    "py_float (dict_get d (lit ''profit'') (JInt 0)) = Inr b"
    by (auto dest!: coerces_Inr)
  with True show ?thesis
    by (simp add: tp2_embed_def Let_def)
next
  case False
  then show ?thesis
    by (auto simp: tp2_embed_def Let_def and_then_cases split: sum.splits
        dest!: not_coerces_Inl dest: py_float_error)
qed

lemma sl_embed_total:
  "(if \<forall>k \<in> set [lit ''price'', lit ''loss'']. coerces d k
    then \<exists>e. sl_embed now (JObj d) = Inr e
    else \<exists>e \<in> {ValueError, TypeError, OverflowError}. sl_embed now (JObj d) = Inl e)"
proof (cases "\<forall>k \<in> set [lit ''price'', lit ''loss'']. coerces d k")
  case True
  then obtain a b where "py_float (dict_get d (lit ''price'') (JInt 0)) = Inr a"
    "py_float (dict_get d (lit ''loss'') (JInt 0)) = Inr b"
    by (auto dest!: coerces_Inr)
  with True show ?thesis
    by (simp add: sl_embed_def Let_def)
next
  case False
  then show ?thesis
    by (auto simp: sl_embed_def Let_def and_then_cases split: sum.splits
        dest!: not_coerces_Inl dest: py_float_error)
qed

lemma eod_embed_total:
  "(if \<forall>k \<in> set [lit ''price'', lit ''pnl'']. coerces d k
    then \<exists>e. eod_embed now (JObj d) = Inr e
    else \<exists>e \<in> {ValueError, TypeError, OverflowError}. eod_embed now (JObj d) = Inl e)"
proof (cases "\<forall>k \<in> set [lit ''price'', lit ''pnl'']. coerces d k")
  case True
  then obtain a b where "py_float (dict_get d (lit ''price'') (JInt 0)) = Inr a"
    "py_float (dict_get d (lit ''pnl'') (JInt 0)) = Inr b"
    by (auto dest!: coerces_Inr)
  with True show ?thesis
    by (simp add: eod_embed_def Let_def)
next
  case False
  then show ?thesis
    by (auto simp: eod_embed_def Let_def and_then_cases split: sum.splits
        dest!: not_coerces_Inl dest: py_float_error)
qed

lemma channel_send_result: "fst (channel_send ch m st) \<in> {Inr (), Inl HTTPException}"
  by (simp add: channel_send_def)

lemma send_embed_built: "fst (send_embed ch (Inr e) st) \<in> {Inr (), Inl HTTPException}"
  using channel_send_result [of ch "Embedded e" st] by (simp add: send_embed_def)

lemma send_embed_failed: "send_embed ch (Inl err) st = (Inl err, st)"
  by (simp add: send_embed_def)

lemma send_embed_total:
  assumes "if A then \<exists>e. r = Inr e else \<exists>e \<in> {ValueError, TypeError, OverflowError}. r = Inl e"
  shows "(A \<longrightarrow> fst (send_embed ch r st) \<in> {Inr (), Inl HTTPException})
       \<and> (\<not> A \<longrightarrow> fst (send_embed ch r st) \<in> {Inl ValueError, Inl TypeError, Inl OverflowError}
                    \<and> snd (send_embed ch r st) = st)"
proof (cases A)
  case True
  with assms obtain e where "r = Inr e" by auto
  with True show ?thesis using send_embed_built [of ch e st] by simp
next
  case False
  with assms obtain e where "e \<in> {ValueError, TypeError, OverflowError}" "r = Inl e" by auto
  with False show ?thesis by (auto simp: send_embed_failed)
qed

text \<open>
  C1, as the code has it. With the channel resolved and a dict as payload, \<open>send_alert\<close>
  raises no formatting error when \<open>float\<close> accepts every numeric field the selected
  formatter reads, as the payload has it or as its default \<open>0\<close>: it returns, or the send
  itself fails. When \<open>float\<close> rejects one of them, its \<open>ValueError\<close>, \<open>TypeError\<close> or
  \<open>OverflowError\<close> leaves \<open>send_alert\<close>: no statement of \<open>send_alert\<close> or of the
  formatter catches it, and it is raised before the formatter prints or sends, so the
  system is as it was when \<open>send_alert\<close> was called. What the event loop does with the
  exception of the task is not part of \<open>send_alert\<close>.
\<close>

theorem send_alert_formatting_errors:
  assumes "get_channel st (DISCORD_CHANNEL_ID cfg) = Some ch"
  shows "((\<forall>k \<in> set (numeric_fields (alert_type_of d)). coerces d k) \<longrightarrow>
            fst (send_alert cfg (JObj d) st) \<in> {Inr (), Inl HTTPException})
       \<and> (\<not> (\<forall>k \<in> set (numeric_fields (alert_type_of d)). coerces d k) \<longrightarrow>
            fst (send_alert cfg (JObj d) st) \<in> {Inl ValueError, Inl TypeError, Inl OverflowError}
            \<and> snd (send_alert cfg (JObj d) st) = st)"
proof -
  let ?t = "alert_type_of d"
  consider (entry) "?t = JStr (lit ''entry'')" | (tp1) "?t = JStr (lit ''tp1'')"
    | (tp2) "?t = JStr (lit ''tp2'')" | (sl) "?t = JStr (lit ''sl'')" | (eod) "?t = JStr (lit ''eod'')"
    | (other) "?t \<notin> {JStr (lit ''entry''), JStr (lit ''tp1''), JStr (lit ''tp2''),
                      JStr (lit ''sl''), JStr (lit ''eod'')}"
    by blast
  then show ?thesis
  proof cases
    case entry
    then have "send_alert cfg (JObj d) st = send_embed ch (entry_embed (utcnow st) (JObj d)) st"
      using assms by (simp add: send_alert_def alert_type_of_def send_entry_alert_def)
    moreover have "numeric_fields ?t = [lit ''entry'', lit ''stop'', lit ''tp1'', lit ''tp2'']"
      using entry by (simp add: numeric_fields_def)
    ultimately show ?thesis
      using send_embed_total [OF entry_embed_total [of d "utcnow st"], of ch st] by simp
  next
    case tp1
    then have "send_alert cfg (JObj d) st = send_embed ch (tp1_embed (utcnow st) (JObj d)) st"
      using assms by (simp add: send_alert_def alert_type_of_def send_tp1_alert_def)
    moreover have "numeric_fields ?t = [lit ''price'', lit ''profit'']"
      using tp1 by (simp add: numeric_fields_def)
    ultimately show ?thesis
      using send_embed_total [OF tp1_embed_total [of d "utcnow st"], of ch st] by simp
  next
    case tp2
    then have "send_alert cfg (JObj d) st = send_embed ch (tp2_embed (utcnow st) (JObj d)) st"
      using assms by (simp add: send_alert_def alert_type_of_def send_tp2_alert_def)
    moreover have "numeric_fields ?t = [lit ''price'', lit ''profit'']"
      using tp2 by (simp add: numeric_fields_def)
    ultimately show ?thesis
      using send_embed_total [OF tp2_embed_total [of d "utcnow st"], of ch st] by simp
  next
    case sl
    then have "send_alert cfg (JObj d) st = send_embed ch (sl_embed (utcnow st) (JObj d)) st"
      using assms by (simp add: send_alert_def alert_type_of_def send_sl_alert_def)
    moreover have "numeric_fields ?t = [lit ''price'', lit ''loss'']"
      using sl by (simp add: numeric_fields_def)
    ultimately show ?thesis
      using send_embed_total [OF sl_embed_total [of d "utcnow st"], of ch st] by simp
  next
    case eod
    then have "send_alert cfg (JObj d) st = send_embed ch (eod_embed (utcnow st) (JObj d)) st"
      using assms by (simp add: send_alert_def alert_type_of_def send_eod_alert_def)
    moreover have "numeric_fields ?t = [lit ''price'', lit ''pnl'']"
      using eod by (simp add: numeric_fields_def)
    ultimately show ?thesis
      using send_embed_total [OF eod_embed_total [of d "utcnow st"], of ch st] by simp
  next
    case other
    then have "send_alert cfg (JObj d) st = channel_send ch (Content (generic_text (JObj d))) st"
      using assms by (simp add: send_alert_def alert_type_of_def Let_def)
    moreover have "numeric_fields ?t = []"
      using other by (simp add: numeric_fields_def)
    ultimately show ?thesis
      using channel_send_result [of ch "Content (generic_text (JObj d))" st] by simp
  qed
qed

theorem send_alert_formatting_errors_witness:
  "get_channel sample_system (DISCORD_CHANNEL_ID sample_config) = Some 42
   \<and> numeric_fields (alert_type_of entry_example) = [lit ''entry'', lit ''stop'', lit ''tp1'', lit ''tp2'']
   \<and> coerces entry_example (lit ''entry'') \<and> coerces entry_example (lit ''stop'')
   \<and> coerces entry_example (lit ''tp1'') \<and> coerces entry_example (lit ''tp2'')
   \<and> fst (send_alert sample_config (JObj entry_example) sample_system) \<in> {Inr (), Inl HTTPException}
   \<and> numeric_fields (alert_type_of bad_entry_example) = [lit ''entry'', lit ''stop'', lit ''tp1'', lit ''tp2'']
   \<and> \<not> coerces bad_entry_example (lit ''entry'')
   \<and> fst (send_alert sample_config (JObj bad_entry_example) sample_system)
       \<in> {Inl ValueError, Inl TypeError, Inl OverflowError}
   \<and> snd (send_alert sample_config (JObj bad_entry_example) sample_system) = sample_system"
proof -
  have h: "get_channel sample_system (DISCORD_CHANNEL_ID sample_config) = Some 42"
    by (simp add: get_channel_def sample_system_def sample_config_def)
  have n1: "numeric_fields (alert_type_of entry_example) = [lit ''entry'', lit ''stop'', lit ''tp1'', lit ''tp2'']"
    by (simp add: numeric_fields_def alert_type_of_def entry_example_def dict_get_def)
  have c: "coerces entry_example (lit ''entry'') \<and> coerces entry_example (lit ''stop'')
           \<and> coerces entry_example (lit ''tp1'') \<and> coerces entry_example (lit ''tp2'')"
    by (simp add: coerces_def entry_example_floats)
  have good: "\<forall>k \<in> set (numeric_fields (alert_type_of entry_example)). coerces entry_example k"
    using c by (simp add: n1)
  have n2: "numeric_fields (alert_type_of bad_entry_example) = [lit ''entry'', lit ''stop'', lit ''tp1'', lit ''tp2'']"
    by (simp add: numeric_fields_def alert_type_of_def bad_entry_example_def dict_get_def)
  have b1: "py_float (dict_get bad_entry_example (lit ''entry'') (JInt 0)) = Inl ValueError"
    by (simp add: bad_entry_example_def payload_eval parse_eval format_eval)
  have nc: "\<not> coerces bad_entry_example (lit ''entry'')"
    by (simp add: coerces_def b1)
  have bad: "\<not> (\<forall>k \<in> set (numeric_fields (alert_type_of bad_entry_example)). coerces bad_entry_example k)"
    using nc by (simp add: n2)
  from send_alert_formatting_errors [OF h, of entry_example] good
  have r1: "fst (send_alert sample_config (JObj entry_example) sample_system) \<in> {Inr (), Inl HTTPException}"
    by blast
  from send_alert_formatting_errors [OF h, of bad_entry_example] bad
  have r2: "fst (send_alert sample_config (JObj bad_entry_example) sample_system)
       \<in> {Inl ValueError, Inl TypeError, Inl OverflowError}
   \<and> snd (send_alert sample_config (JObj bad_entry_example) sample_system) = sample_system"
    by blast
  from h n1 c r1 n2 nc r2 show ?thesis by blast
qed

theorem send_alert_raises_counterexample:
  "send_alert sample_config (JObj bad_entry_example) sample_system = (Inl ValueError, sample_system)"
proof -
  have h: "get_channel sample_system (DISCORD_CHANNEL_ID sample_config) = Some 42"
    by (simp add: get_channel_def sample_system_def sample_config_def)
  have t: "dict_get bad_entry_example (lit ''type'') (JStr (lit ''unknown'')) = JStr (lit ''entry'')"
    by (simp add: bad_entry_example_def dict_get_def)
  have b1: "py_float (dict_get bad_entry_example (lit ''entry'') (JInt 0)) = Inl ValueError"
    by (simp add: bad_entry_example_def payload_eval parse_eval format_eval)
  have e: "entry_embed (utcnow sample_system) (JObj bad_entry_example) = Inl ValueError"
    by (simp add: entry_embed_def b1)
  show ?thesis
    by (simp add: send_alert_def h t send_entry_alert_def e send_embed_def)
qed

subsection \<open>Defaults of missing fields\<close>

lemma dict_get_missing: "map_of d k = None \<Longrightarrow> dict_get d k dflt = dflt"
  by (simp add: dict_get_def)

lemma dict_get_snoc:
  "map_of d k = None \<Longrightarrow>
   dict_get (d @ [(k, v)]) k' dflt = (if k' = k then v else dict_get d k' dflt)"
  by (auto simp: dict_get_def map_add_def split: option.splits)

lemma map_add_single_other: "k' \<noteq> k \<Longrightarrow> ([k \<mapsto> v] ++ m) k' = m k'"
  by (simp add: map_add_def split: option.splits)

lemma built_title_Inr [simp]: "built_title (Inr e) = Some (title e)"
  by (simp add: built_title_def)

lemma title_Embed [simp]: "title (Embed t d c ts) = t"
  by (simp add: Embed_def)

lemma title_add_field [simp]: "title (add_field n v i e) = title e"
  by (simp add: add_field_def)

lemma title_set_footer [simp]: "title (set_footer t e) = title e"
  by (simp add: set_footer_def)

lemma entry_embed_default:
  assumes "map_of d k = None" and "k \<in> set entry_keys"
  shows "entry_embed now (JObj (d @ [(k, field_default k)])) = entry_embed now (JObj d)"
proof -
  from assms(2) consider "k = lit ''direction''" | "k = lit ''entry''" | "k = lit ''stop''"
    | "k = lit ''tp1''" | "k = lit ''tp2''" | "k = lit ''mode''" | "k = lit ''time''"
    | "k = lit ''day''" | "k = lit ''timeframe''"
    by (auto simp: entry_keys_def)
  then show ?thesis
    using assms(1)
    by cases (simp_all add: entry_embed_def map_add_single_other dict_get_snoc dict_get_missing field_default_def Let_def)
qed

lemma exit_embed_default:
  assumes "map_of d k = None"
  shows "(k \<in> set [lit ''direction'', lit ''price'', lit ''profit''] \<longrightarrow>
            tp1_embed now (JObj (d @ [(k, field_default k)])) = tp1_embed now (JObj d)
            \<and> tp2_embed now (JObj (d @ [(k, field_default k)])) = tp2_embed now (JObj d))
       \<and> (k \<in> set [lit ''direction'', lit ''price'', lit ''loss''] \<longrightarrow>
            sl_embed now (JObj (d @ [(k, field_default k)])) = sl_embed now (JObj d))
       \<and> (k \<in> set [lit ''direction'', lit ''price'', lit ''pnl''] \<longrightarrow>
            eod_embed now (JObj (d @ [(k, field_default k)])) = eod_embed now (JObj d))"
  using assms
  by (auto simp: tp1_embed_def tp2_embed_def sl_embed_def eod_embed_def
      dict_get_snoc dict_get_missing field_default_def Let_def)

text \<open>
  C8, as the code has it. A field that a formatter reads and the payload lacks is treated
  as if the payload had it with its default: \<open>0\<close> for a numeric field (which \<open>float\<close> then
  takes), \<open>UNKNOWN\<close> for \<open>direction\<close>, the empty text for \<open>mode\<close>, \<open>time\<close> and \<open>day\<close>, and
  \<open>Unknown\<close> for \<open>timeframe\<close>.
\<close>

theorem missing_field_defaults:
  assumes "map_of d k = None"
  shows "(k \<in> set entry_keys \<longrightarrow>
            entry_embed now (JObj (d @ [(k, field_default k)])) = entry_embed now (JObj d))
       \<and> (k \<in> set [lit ''direction'', lit ''price'', lit ''profit''] \<longrightarrow>
            tp1_embed now (JObj (d @ [(k, field_default k)])) = tp1_embed now (JObj d)
            \<and> tp2_embed now (JObj (d @ [(k, field_default k)])) = tp2_embed now (JObj d))
       \<and> (k \<in> set [lit ''direction'', lit ''price'', lit ''loss''] \<longrightarrow>
            sl_embed now (JObj (d @ [(k, field_default k)])) = sl_embed now (JObj d))
       \<and> (k \<in> set [lit ''direction'', lit ''price'', lit ''pnl''] \<longrightarrow>
            eod_embed now (JObj (d @ [(k, field_default k)])) = eod_embed now (JObj d))
       \<and> field_default (lit ''entry'') = JInt 0 \<and> field_default (lit ''stop'') = JInt 0
       \<and> field_default (lit ''tp1'') = JInt 0 \<and> field_default (lit ''tp2'') = JInt 0
       \<and> field_default (lit ''price'') = JInt 0 \<and> field_default (lit ''profit'') = JInt 0
       \<and> field_default (lit ''loss'') = JInt 0 \<and> field_default (lit ''pnl'') = JInt 0
       \<and> field_default (lit ''direction'') = JStr (lit ''UNKNOWN'')
       \<and> field_default (lit ''mode'') = JStr [] \<and> field_default (lit ''time'') = JStr []
       \<and> field_default (lit ''day'') = JStr []
       \<and> field_default (lit ''timeframe'') = JStr (lit ''Unknown'')"
  using entry_embed_default [OF assms, of now] exit_embed_default [OF assms, of now]
  by (simp add: field_default_def)

theorem missing_field_defaults_witness:
  "map_of [] (lit ''timeframe'') = (None :: json option)
   \<and> lit ''timeframe'' \<in> set entry_keys
   \<and> entry_embed 0 (JObj [(lit ''timeframe'', JStr (lit ''Unknown''))]) = entry_embed 0 (JObj [])
   \<and> map_of [] (lit ''pnl'') = (None :: json option)
   \<and> lit ''pnl'' \<in> set [lit ''direction'', lit ''price'', lit ''pnl'']
   \<and> eod_embed 0 (JObj [(lit ''pnl'', JInt 0)]) = eod_embed 0 (JObj [])"
proof -
  have m1: "map_of [] (lit ''timeframe'') = (None :: json option)" by simp
  have m2: "map_of [] (lit ''pnl'') = (None :: json option)" by simp
  have k1: "lit ''timeframe'' \<in> set entry_keys" by (simp add: entry_keys_def)
  have k2: "lit ''pnl'' \<in> set [lit ''direction'', lit ''price'', lit ''pnl'']" by simp
  have d1: "field_default (lit ''timeframe'') = JStr (lit ''Unknown'')" by (simp add: field_default_def)
  have d2: "field_default (lit ''pnl'') = JInt 0" by (simp add: field_default_def)
  from missing_field_defaults [OF m1, of 0] k1 d1
  have r1: "entry_embed 0 (JObj [(lit ''timeframe'', JStr (lit ''Unknown''))]) = entry_embed 0 (JObj [])"
    by simp
  from missing_field_defaults [OF m2, of 0] k2 d2
  have r2: "eod_embed 0 (JObj [(lit ''pnl'', JInt 0)]) = eod_embed 0 (JObj [])"
    by simp
  from m1 k1 r1 m2 k2 r2 show ?thesis by blast
qed

theorem timeframe_default_counterexample:
  "built_title (entry_embed 0 (JObj [])) = Some ([0x1F534] @ lit '' UNKNOWN ENTRY -  [Unknown]'')
   \<and> built_title (entry_embed 0 (JObj [(lit ''timeframe'', JStr (lit ''UNKNOWN''))])) =
       Some ([0x1F534] @ lit '' UNKNOWN ENTRY -  [UNKNOWN]'')
   \<and> built_title (entry_embed 0 (JObj [(lit ''timeframe'', JStr [])])) =
       Some ([0x1F534] @ lit '' UNKNOWN ENTRY -  []'')
   \<and> built_title (entry_embed 0 (JObj [])) \<noteq> built_title (entry_embed 0 (JObj [(lit ''timeframe'', JStr (lit ''UNKNOWN''))]))
   \<and> built_title (entry_embed 0 (JObj [])) \<noteq> built_title (entry_embed 0 (JObj [(lit ''timeframe'', JStr [])]))"
proof -
  have z: "py_float (JInt 0) = Inr (Finite False 0 (- 1074))"
    by (simp add: py_float_def float_eval)
  have a: "built_title (entry_embed 0 (JObj [])) = Some ([0x1F534] @ lit '' UNKNOWN ENTRY -  [Unknown]'')"
    by (simp add: entry_embed_def dict_get_def z py_str_def lit_def)
  have b: "built_title (entry_embed 0 (JObj [(lit ''timeframe'', JStr (lit ''UNKNOWN''))])) =
       Some ([0x1F534] @ lit '' UNKNOWN ENTRY -  [UNKNOWN]'')"
    by (simp add: entry_embed_def dict_get_def z py_str_def lit_def)
  have c: "built_title (entry_embed 0 (JObj [(lit ''timeframe'', JStr [])])) =
       Some ([0x1F534] @ lit '' UNKNOWN ENTRY -  []'')"
    by (simp add: entry_embed_def dict_get_def z py_str_def lit_def)
  from a b c show ?thesis by (simp add: lit_def)
qed

end
